theory Spec2Isabelle
  imports Complex_Main "HOL-Library.Sublist"
begin

section \<open>JavaScript values used by the dashboard code\<close>

text \<open>
  Strings are lists of code units; the code units that matter to the source (ASCII letters,
  digits, punctuation and the white space characters below U+0100) are the \<^typ>\<open>char\<close>s with
  the same code. A JavaScript number is \<open>NaN\<close>, one of the two infinities, or a finite value;
  finite values are kept as exact rationals, so the rounding of binary64 arithmetic and the
  sign of zero are not part of the model.
\<close>

datatype jsnum = NaN | PInf | NInf | Fin rat

fun js_add :: "jsnum \<Rightarrow> jsnum \<Rightarrow> jsnum" where
  "js_add NaN _ = NaN"
| "js_add _ NaN = NaN"
| "js_add PInf NInf = NaN"
| "js_add NInf PInf = NaN"
| "js_add PInf _ = PInf"
| "js_add _ PInf = PInf"
| "js_add NInf _ = NInf"
| "js_add _ NInf = NInf"
| "js_add (Fin a) (Fin b) = Fin (a + b)"

definition js_inf :: "bool \<Rightarrow> jsnum" where
  "js_inf negative = (if negative then NInf else PInf)"

fun js_mul :: "jsnum \<Rightarrow> jsnum \<Rightarrow> jsnum" where
  "js_mul NaN _ = NaN"
| "js_mul _ NaN = NaN"
| "js_mul (Fin a) (Fin b) = Fin (a * b)"
| "js_mul (Fin a) PInf = (if a = 0 then NaN else js_inf (a < 0))"
| "js_mul (Fin a) NInf = (if a = 0 then NaN else js_inf (0 < a))"
| "js_mul PInf (Fin b) = (if b = 0 then NaN else js_inf (b < 0))"
| "js_mul NInf (Fin b) = (if b = 0 then NaN else js_inf (0 < b))"
| "js_mul PInf PInf = PInf"
| "js_mul NInf NInf = PInf"
| "js_mul PInf NInf = NInf"
| "js_mul NInf PInf = NInf"

text \<open>The relational operators \<open><\<close>, \<open>>\<close>, \<open><=\<close> and \<open>>=\<close>: every comparison with \<open>NaN\<close> is false.\<close>

fun js_lt :: "jsnum \<Rightarrow> jsnum \<Rightarrow> bool" where
  "js_lt NaN _ = False"
| "js_lt _ NaN = False"
| "js_lt PInf _ = False"
| "js_lt _ NInf = False"
| "js_lt NInf _ = True"
| "js_lt _ PInf = True"
| "js_lt (Fin a) (Fin b) = (a < b)"

definition js_gt :: "jsnum \<Rightarrow> jsnum \<Rightarrow> bool" where
  "js_gt a b = js_lt b a"

definition js_le :: "jsnum \<Rightarrow> jsnum \<Rightarrow> bool" where
  "js_le a b = (a \<noteq> NaN \<and> b \<noteq> NaN \<and> (a = b \<or> js_lt a b))"

definition js_ge :: "jsnum \<Rightarrow> jsnum \<Rightarrow> bool" where
  "js_ge a b = js_le b a"

definition isNaN :: "jsnum \<Rightarrow> bool" where
  "isNaN x = (x = NaN)"

text \<open>The number of elements of an array, as a number.\<close>

definition js_length :: "'a list \<Rightarrow> jsnum" where
  "js_length xs = Fin (of_nat (length xs))"

subsection \<open>Character classes\<close>

definition inRange :: "char \<Rightarrow> char \<Rightarrow> char \<Rightarrow> bool" where
  "inRange lo hi c = ((of_char lo :: nat) \<le> of_char c \<and> (of_char c :: nat) \<le> of_char hi)"

definition isDigit :: "char \<Rightarrow> bool" where
  "isDigit c = inRange (CHR ''0'') (CHR ''9'') c"

text \<open>
  \<open>WhiteSpace\<close> and \<open>LineTerminator\<close> of the language below U+0100: TAB, LF, VT, FF, CR,
  SP and NBSP. \<open>String.prototype.trim\<close> and \<open>parseFloat\<close> strip exactly these.
\<close>

definition isWhiteSpace :: "char \<Rightarrow> bool" where
  "isWhiteSpace c = ((of_char c :: nat) \<in> set [9, 10, 11, 12, 13, 32, 160])"

definition trim :: "string \<Rightarrow> string" where
  "trim s = rev (dropWhile isWhiteSpace (rev (dropWhile isWhiteSpace s)))"

subsection \<open>\<open>parseFloat\<close> and \<open>parseInt\<close>\<close>

definition digitVal :: "char \<Rightarrow> nat" where
  "digitVal c = of_char c - of_char (CHR ''0'')"

definition digitsVal :: "string \<Rightarrow> nat" where
  "digitsVal ds = foldl (\<lambda>acc c. 10 * acc + digitVal c) 0 ds"

text \<open>
  The exponent part \<open>e\<close>, \<open>E\<close> followed by an optional sign and at least one digit; anything
  else after the mantissa is ignored, which is exponent 0.
\<close>

definition exponentPart :: "string \<Rightarrow> int" where
  "exponentPart r =
     (case r of
        [] \<Rightarrow> 0
      | c # t \<Rightarrow>
          if c = CHR ''e'' \<or> c = CHR ''E'' then
            (case t of
               [] \<Rightarrow> 0
             | d # u \<Rightarrow>
                 if d = CHR ''-'' then
                   (if takeWhile isDigit u = [] then 0 else - int (digitsVal (takeWhile isDigit u)))
                 else if d = CHR ''+'' then
                   (if takeWhile isDigit u = [] then 0 else int (digitsVal (takeWhile isDigit u)))
                 else int (digitsVal (takeWhile isDigit t)))
          else 0)"

definition scale10 :: "rat \<Rightarrow> int \<Rightarrow> rat" where
  "scale10 m e = (if 0 \<le> e then m * 10 ^ nat e else m / 10 ^ nat (- e))"

text \<open>
  \<open>parseFloat\<close>: skip leading white space, then read the longest prefix that is a
  \<open>StrDecimalLiteral\<close> (sign, \<open>Infinity\<close> or digits with an optional fraction and exponent);
  \<open>NaN\<close> when there is none.
\<close>

definition unsignedLiteral :: "string \<Rightarrow> jsnum" where
  "unsignedLiteral u =
     (if take 8 u = ''Infinity'' then PInf
      else
        let ip = takeWhile isDigit u;
            r1 = dropWhile isDigit u;
            hasDot = (r1 \<noteq> [] \<and> hd r1 = CHR ''.'');
            fp = (if hasDot then takeWhile isDigit (tl r1) else []);
            r2 = (if hasDot then dropWhile isDigit (tl r1) else r1)
        in if ip = [] \<and> fp = [] then NaN
           else Fin (scale10 (of_nat (digitsVal ip) + of_nat (digitsVal fp) / 10 ^ length fp)
                       (exponentPart r2)))"

definition js_neg :: "jsnum \<Rightarrow> jsnum" where
  "js_neg x = (case x of NaN \<Rightarrow> NaN | PInf \<Rightarrow> NInf | NInf \<Rightarrow> PInf | Fin a \<Rightarrow> Fin (- a))"

definition parseFloat :: "string \<Rightarrow> jsnum" where
  "parseFloat s =
     (case dropWhile isWhiteSpace s of
        [] \<Rightarrow> NaN
      | c # t \<Rightarrow>
          if c = CHR ''-'' then js_neg (unsignedLiteral t)
          else if c = CHR ''+'' then unsignedLiteral t
          else unsignedLiteral (c # t))"

text \<open>
  \<open>parseInt\<close> without a radix: leading white space and a sign are skipped; a \<open>0x\<close> or
  \<open>0X\<close> prefix selects base 16, otherwise the leading decimal digits are read; \<open>NaN\<close> when
  no digit follows.
\<close>

definition isHexDigit :: "char \<Rightarrow> bool" where
  "isHexDigit c = (isDigit c \<or> inRange (CHR ''a'') (CHR ''f'') c \<or> inRange (CHR ''A'') (CHR ''F'') c)"

definition hexVal :: "char \<Rightarrow> nat" where
  "hexVal c =
     (if isDigit c then digitVal c
      else if inRange (CHR ''a'') (CHR ''f'') c then of_char c - of_char (CHR ''a'') + 10
      else of_char c - of_char (CHR ''A'') + 10)"

definition unsignedInt :: "string \<Rightarrow> jsnum" where
  "unsignedInt u =
     (if take 2 u = ''0x'' \<or> take 2 u = ''0X'' then
        (if takeWhile isHexDigit (drop 2 u) = [] then NaN
         else Fin (of_nat (foldl (\<lambda>acc c. 16 * acc + hexVal c) 0 (takeWhile isHexDigit (drop 2 u)))))
      else if takeWhile isDigit u = [] then NaN
      else Fin (of_nat (digitsVal (takeWhile isDigit u))))"

definition parseInt :: "string \<Rightarrow> jsnum" where
  "parseInt s =
     (case dropWhile isWhiteSpace s of
        [] \<Rightarrow> NaN
      | c # t \<Rightarrow>
          if c = CHR ''-'' then js_neg (unsignedInt t)
          else if c = CHR ''+'' then unsignedInt t
          else unsignedInt (c # t))"

subsection \<open>\<open>slice\<close> of strings and arrays\<close>

text \<open>
  \<open>String.prototype.slice\<close> and \<open>Array.prototype.slice\<close> treat their indices alike: a
  negative index counts from the end, and both indices are clamped to the sequence;
  \<open>slice_from\<close> is the call with the second argument left out.
\<close>

definition slice :: "'a list \<Rightarrow> int \<Rightarrow> int \<Rightarrow> 'a list" where
  "slice s start stop =
     (let len = int (length s);
          from_idx = (if start < 0 then max (len + start) 0 else min start len);
          to_idx = (if stop < 0 then max (len + stop) 0 else min stop len)
      in take (nat (to_idx - from_idx)) (drop (nat from_idx) s))"

definition slice_from :: "'a list \<Rightarrow> int \<Rightarrow> 'a list" where
  "slice_from s start = slice s start (int (length s))"

section \<open>Validators (\<open>utils/validators\<close>) and formatters (\<open>utils/formatters\<close>)\<close>

text \<open>The Base58 alphabet of the regular expression \<open>^[1-9A-HJ-NP-Za-km-z]{32,44}$\<close>.\<close>

definition isBase58 :: "char \<Rightarrow> bool" where
  "isBase58 c =
     (inRange (CHR ''1'') (CHR ''9'') c \<or> inRange (CHR ''A'') (CHR ''H'') c \<or>
      inRange (CHR ''J'') (CHR ''N'') c \<or> inRange (CHR ''P'') (CHR ''Z'') c \<or>
      inRange (CHR ''a'') (CHR ''k'') c \<or> inRange (CHR ''m'') (CHR ''z'') c)"

definition solanaAddress :: "string \<Rightarrow> bool" where
  "solanaAddress address =
     (32 \<le> length address \<and> length address \<le> 44 \<and> list_all isBase58 address)"

text \<open>\<open>validateSolanaAddress\<close> of the formatters: the same test inside a \<open>try\<close> that cannot fail.\<close>

definition validateSolanaAddress :: "string \<Rightarrow> bool" where
  "validateSolanaAddress address =
     (32 \<le> length address \<and> length address \<le> 44 \<and> list_all isBase58 address)"


definition percentage :: "jsnum \<Rightarrow> bool" where
  "percentage v = (\<not> isNaN v \<and> js_ge v (Fin 0) \<and> js_le v (Fin 100))"




text \<open>
  \<open>formatAddress\<close>, with the counts as the integers the caller passes (the defaults 4 and 4
  are \<open>formatAddressDefault\<close>).
\<close>

definition formatAddress :: "string \<Rightarrow> int \<Rightarrow> int \<Rightarrow> string" where
  "formatAddress address startChars endChars =
     (if address = [] \<or> int (length address) \<le> startChars + endChars then address
      else slice address 0 startChars @ ''...'' @ slice_from address (- endChars))"

definition formatAddressDefault :: "string \<Rightarrow> string" where
  "formatAddressDefault address = formatAddress address 4 4"

section \<open>The Bundle Creator component\<close>

text \<open>The character class of \<open>^[A-Za-z0-9]{32,44}$\<close>.\<close>

definition isAlnum :: "char \<Rightarrow> bool" where
  "isAlnum c =
     (inRange (CHR ''A'') (CHR ''Z'') c \<or> inRange (CHR ''a'') (CHR ''z'') c \<or>
      inRange (CHR ''0'') (CHR ''9'') c)"

definition validateTokenAddress :: "string \<Rightarrow> bool" where
  "validateTokenAddress address =
     (32 \<le> length address \<and> length address \<le> 44 \<and> list_all isAlnum address)"

datatype wallet_type = Dev | Fund | Trading

text \<open>A \<open>Date\<close> is kept as its time value in milliseconds.\<close>

type_synonym date = int

record wallet =
  wallet_id :: string
  address :: string
  balance :: jsnum
  selected :: bool
  name :: "string option"
  wtype :: wallet_type
  lastUsed :: "date option"
  transactionCount :: jsnum

record bundleConfig =
  cfg_tokenAddress :: string
  cfg_buyAmount :: jsnum
  cfg_sellPercentage :: jsnum
  cfg_priorityFee :: jsnum
  cfg_slippage :: jsnum
  cfg_wallets :: "string list"
  cfg_maxGasPrice :: jsnum
  cfg_deadline :: jsnum
  cfg_autoApprove :: bool

record bundleStats =
  totalBundles :: jsnum
  successfulBundles :: jsnum
  totalVolume :: jsnum
  averageGasUsed :: jsnum

text \<open>The state hooks of the component, in the order of their \<open>useState\<close> calls.\<close>

record creator =
  isModalOpen :: bool
  isLoading :: bool
  error :: "string option"
  tokenAddress :: string
  buyAmount :: string
  sellPercentage :: string
  priorityFee :: string
  slippage :: string
  maxGasPrice :: string
  deadline :: string
  autoApprove :: bool
  wallets :: "wallet list"
  bundleStats :: bundleStats

text \<open>
  What a callback of the parent does when it is called: it returns, or it throws a value
  that is an \<open>Error\<close> with a message or something else.
\<close>

datatype thrown = ErrorObject string | OtherValue

record props =
  onCreateBundle :: "(bundleConfig \<Rightarrow> thrown option) option"
  onError :: bool

text \<open>The calls the component makes to its parent, in order.\<close>

datatype callback = CreateBundle bundleConfig | ReportError string

definition initialWallets :: "wallet list" where
  "initialWallets =
     [\<lparr>wallet_id = ''1'', address = ''7xKXtg2CW87d97TXJSDpbD5jBkheTqA83TZRuJosgAsU'',
        balance = Fin (3 / 2), selected = True, name = Some ''Dev Wallet 1'', wtype = Dev,
        lastUsed = None, transactionCount = Fin 0\<rparr>,
      \<lparr>wallet_id = ''2'', address = ''9WzDXwBbmkg8ZTbNMqUxvQRAyrZzDsGYdLVL9zYtAWWM'',
        balance = Fin (23 / 10), selected = True, name = Some ''Fund Wallet 1'', wtype = Fund,
        lastUsed = None, transactionCount = Fin 0\<rparr>,
      \<lparr>wallet_id = ''3'', address = ''DQyrAcCrDXQ7NeoqGgDCZwBvWDcYmFCjSb9JtteuvPpz'',
        balance = Fin (4 / 5), selected = False, name = Some ''Trading Wallet 1'', wtype = Trading,
        lastUsed = None, transactionCount = Fin 0\<rparr>]"

definition initialCreator :: creator where
  "initialCreator =
     \<lparr>isModalOpen = False, isLoading = False, error = None,
      tokenAddress = [], buyAmount = [], sellPercentage = ''100'', priorityFee = ''0.001'',
      slippage = ''1.0'', maxGasPrice = ''0.005'', deadline = ''30'', autoApprove = False,
      wallets = initialWallets,
      bundleStats = \<lparr>totalBundles = Fin 12, successfulBundles = Fin 10,
                      totalVolume = Fin (228 / 5), averageGasUsed = Fin (23 / 10000)\<rparr>\<rparr>"

subsection \<open>Computed values\<close>

definition selectedWallets :: "wallet list \<Rightarrow> wallet list" where
  "selectedWallets ws = filter selected ws"

definition totalBalance :: "wallet list \<Rightarrow> jsnum" where
  "totalBalance sel = foldl (\<lambda>sum w. js_add sum (balance w)) (Fin 0) sel"

text \<open>\<open>buyAmount || '0'\<close>: the empty string is the only falsy string.\<close>

definition orZero :: "string \<Rightarrow> string" where
  "orZero s = (if s = [] then ''0'' else s)"

definition totalInvestment :: "string \<Rightarrow> wallet list \<Rightarrow> jsnum" where
  "totalInvestment buy sel = js_mul (parseFloat (orZero buy)) (js_length sel)"

definition totalFees :: "string \<Rightarrow> wallet list \<Rightarrow> jsnum" where
  "totalFees fee sel = js_mul (parseFloat (orZero fee)) (js_length sel)"

subsection \<open>Validation\<close>

record validation =
  isValid :: bool
  errors :: "string list"

definition validateInputs :: "creator \<Rightarrow> validation" where
  "validateInputs s =
     (let sel = selectedWallets (wallets s);
          e1 = (if trim (tokenAddress s) = [] then [''Token address is required'']
                else if \<not> validateTokenAddress (tokenAddress s)
                then [''Invalid token address format'']
                else []);
          e2 = (if buyAmount s = [] \<or> js_le (parseFloat (buyAmount s)) (Fin 0)
                then [''Buy amount must be greater than 0''] else []);
          e3 = (if js_lt (parseFloat (sellPercentage s)) (Fin 0) \<or>
                   js_gt (parseFloat (sellPercentage s)) (Fin 100)
                then [''Sell percentage must be between 0 and 100''] else []);
          e4 = (if length sel = 0 then [''At least one wallet must be selected''] else []);
          e5 = (if js_gt (totalInvestment (buyAmount s) sel) (totalBalance sel)
                then [''Total investment exceeds available balance''] else []);
          errs = e1 @ e2 @ e3 @ e4 @ e5
      in \<lparr>isValid = (length errs = 0), errors = errs\<rparr>)"

subsection \<open>Creating a bundle\<close>

text \<open>\<open>Array.prototype.join\<close> on strings.\<close>

fun join :: "string \<Rightarrow> string list \<Rightarrow> string" where
  "join sep [] = []"
| "join sep [x] = x"
| "join sep (x # y # ys) = x @ sep @ join sep (y # ys)"

definition makeConfig :: "creator \<Rightarrow> bundleConfig" where
  "makeConfig s =
     \<lparr>cfg_tokenAddress = trim (tokenAddress s),
      cfg_buyAmount = parseFloat (buyAmount s),
      cfg_sellPercentage = parseFloat (sellPercentage s),
      cfg_priorityFee = parseFloat (priorityFee s),
      cfg_slippage = parseFloat (slippage s),
      cfg_wallets = map address (selectedWallets (wallets s)),
      cfg_maxGasPrice = parseFloat (maxGasPrice s),
      cfg_deadline = parseInt (deadline s),
      cfg_autoApprove = autoApprove s\<rparr>"

text \<open>
  The update of the wallets after a bundle was created. Every selected wallet is stamped
  with its own \<open>new Date()\<close>: \<open>stamp i\<close> is the reading taken for the wallet at
  position \<open>i\<close>.
\<close>

definition useWallet :: "date \<Rightarrow> wallet \<Rightarrow> wallet" where
  "useWallet now w =
     (if selected w
      then w\<lparr>transactionCount := js_add (transactionCount w) (Fin 1), lastUsed := Some now\<rparr>
      else w)"

definition useWallets :: "(nat \<Rightarrow> date) \<Rightarrow> wallet list \<Rightarrow> wallet list" where
  "useWallets stamp ws = map (\<lambda>(i, w). useWallet (stamp i) w) (enumerate 0 ws)"

definition errorMessage :: "thrown \<Rightarrow> string" where
  "errorMessage t = (case t of ErrorObject m \<Rightarrow> m | OtherValue \<Rightarrow> ''Failed to create bundle'')"

text \<open>
  \<open>handleCreateBundle\<close> runs in two parts. The first, up to the \<open>await\<close>, runs in the
  render whose state is \<open>s\<close>: it either ends the call with a validation error, or leaves
  the configuration and the total investment it has computed to the second part. The state
  it returns is the one after its state updates (and after the \<open>finally\<close> block, when the
  call ends there).
\<close>

record pending =
  config :: bundleConfig
  investment :: jsnum

definition handleCreateBundle_begin :: "creator \<Rightarrow> creator \<times> pending option" where
  "handleCreateBundle_begin s =
     (let s1 = s\<lparr>isLoading := True, error := None\<rparr>;
          v = validateInputs s
      in if \<not> isValid v then
           (s1\<lparr>error := Some (join '', '' (errors v)), isLoading := False\<rparr>, None)
         else
           (s1, Some \<lparr>config = makeConfig s,
                      investment = totalInvestment (buyAmount s) (selectedWallets (wallets s))\<rparr>))"

text \<open>
  The second part runs when the 1500 ms timer has fired, in whatever state \<open>cur\<close> the
  component then has: the callback of the render that started the call is given the
  configuration, and the functional updates are applied to \<open>cur\<close>. A callback that throws
  sends the call to its \<open>catch\<close>. The result is the state after the \<open>finally\<close> block and
  the calls made to the parent.
\<close>

definition handleCreateBundle_resume ::
  "props \<Rightarrow> (nat \<Rightarrow> date) \<Rightarrow> pending \<Rightarrow> creator \<Rightarrow> creator \<times> callback list" where
  "handleCreateBundle_resume p stamp k cur =
     (let done = cur\<lparr>isModalOpen := False,
                      wallets := useWallets stamp (wallets cur),
                      bundleStats := (bundleStats cur)
                        \<lparr>totalBundles := js_add (totalBundles (bundleStats cur)) (Fin 1),
                         totalVolume := js_add (totalVolume (bundleStats cur)) (investment k)\<rparr>,
                      isLoading := False\<rparr>
      in case onCreateBundle p of
           None \<Rightarrow> (done, [])
         | Some cb \<Rightarrow>
             (case cb (config k) of
                None \<Rightarrow> (done, [CreateBundle (config k)])
              | Some t \<Rightarrow>
                  (cur\<lparr>error := Some (errorMessage t), isLoading := False\<rparr>,
                   CreateBundle (config k) #
                     (if onError p then [ReportError (errorMessage t)] else []))))"

text \<open>A whole call during which nothing else touches the component.\<close>

definition handleCreateBundle ::
  "props \<Rightarrow> (nat \<Rightarrow> date) \<Rightarrow> creator \<Rightarrow> creator \<times> callback list" where
  "handleCreateBundle p stamp s =
     (case handleCreateBundle_begin s of
        (s1, None) \<Rightarrow> (s1, [])
      | (s1, Some k) \<Rightarrow> handleCreateBundle_resume p stamp k s1)"

section \<open>The API utilities: \<open>apiUtils.retry\<close>\<close>

subsection \<open>The two binary64 operations of the helper\<close>

text \<open>
  \<open>retries\<close> is a count: a binary64 number whose value is an integer, kept as that
  integer. \<open>retries - 1\<close> is the exact difference rounded to the nearest binary64 value,
  ties to the even significand: integers of at most 53 bits are exact, a longer one keeps its
  53 leading bits.
\<close>

fun bitLength :: "nat \<Rightarrow> nat" where
  "bitLength n = (if n = 0 then 0 else Suc (bitLength (n div 2)))"

declare bitLength.simps [simp del]

definition round64 :: "nat \<Rightarrow> nat" where
  "round64 m =
     (let b = bitLength m in
      if b \<le> 53 then m
      else
        let q = 2 ^ (b - 53);
            lo = (m div q) * q;
            r = m mod q
        in if 2 * r < q then lo
           else if q < 2 * r then lo + q
           else if even (m div q) then lo
           else lo + q)"

definition decrement :: "int \<Rightarrow> int" where
  "decrement retries =
     (if retries - 1 < 0 then retries - 1 else int (round64 (nat (retries - 1))))"

text \<open>
  \<open>delay * 2\<close>: doubling a binary64 value is exact until the result reaches \<open>2^1024\<close>,
  where it overflows to an infinity.
\<close>

definition overflow64 :: rat where
  "overflow64 = 2 ^ 1024"

definition twice :: "jsnum \<Rightarrow> jsnum" where
  "twice d =
     (case d of
        Fin r \<Rightarrow> if \<bar>r\<bar> * 2 \<ge> overflow64 then js_inf (r < 0) else Fin (r * 2)
      | _ \<Rightarrow> d)"

subsection \<open>\<open>delay\<close> and \<open>retry\<close>\<close>

text \<open>
  The operation \<open>fn\<close> acts on the outside world \<open>'s\<close>: one invocation returns a value
  (\<open>Inr\<close>) or fails with an error (\<open>Inl\<close>, a rejected promise or a synchronous throw) and
  leaves a new world. The host's \<open>setTimeout\<close> says what becomes of the world while a timer
  of so many milliseconds runs. A run of \<open>retry\<close> is \<open>None\<close> when the promise never
  settles; otherwise it yields what the promise settles to, the world then, and the
  invocations of \<open>fn\<close> and the awaited delays in the order they happened.
\<close>

datatype ('e, 'a) retry_event = Invoked "'e + 'a" | Waited jsnum

record ('e, 'a, 's) retry_run =
  outcome :: "'e + 'a"
  world :: 's
  trace :: "('e, 'a) retry_event list"

definition apiUtils_delay :: "(jsnum \<Rightarrow> 's \<Rightarrow> 's) \<Rightarrow> jsnum \<Rightarrow> 's \<Rightarrow> 's" where
  "apiUtils_delay setTimeout ms s = setTimeout ms s"

partial_function (option) retry ::
  "(jsnum \<Rightarrow> 's \<Rightarrow> 's) \<Rightarrow> ('s \<Rightarrow> ('e + 'a) \<times> 's) \<Rightarrow> int \<Rightarrow> jsnum \<Rightarrow> 's
     \<Rightarrow> ('e, 'a, 's) retry_run option" where
  "retry setTimeout fn retries delay s =
     (case fn s of
        (Inr v, s') \<Rightarrow> Some \<lparr>outcome = Inr v, world = s', trace = [Invoked (Inr v)]\<rparr>
      | (Inl err, s') \<Rightarrow>
          if retries > 0 then
            Option.bind
              (retry setTimeout fn (decrement retries) (twice delay)
                 (apiUtils_delay setTimeout delay s'))
              (\<lambda>r. Some (r\<lparr>trace := Invoked (Inl err) # Waited delay # trace r\<rparr>))
          else Some \<lparr>outcome = Inl err, world = s', trace = [Invoked (Inl err)]\<rparr>)"

fun isInvoked :: "('e, 'a) retry_event \<Rightarrow> bool" where
  "isInvoked (Invoked r) = True"
| "isInvoked (Waited ms) = False"

definition invocationCount :: "('e, 'a) retry_event list \<Rightarrow> nat" where
  "invocationCount tr = length (filter isInvoked tr)"

section \<open>The encryption service\<close>

text \<open>
  The cipher is the CryptoJS library, which is not part of the repository: \<open>aesEncrypt data key\<close>
  is \<open>CryptoJS.AES.encrypt(data, key).toString()\<close> and \<open>aesDecrypt encrypted key\<close> is
  \<open>CryptoJS.AES.decrypt(encrypted, key).toString(CryptoJS.enc.Utf8)\<close>; \<open>None\<close> is a throw
  of the library. \<open>JSON.stringify\<close> and \<open>JSON.parse\<close> are taken the same way, for values
  that have a JSON text (for the others \<open>JSON.stringify\<close> returns \<open>undefined\<close>).
\<close>

record cipher =
  aesEncrypt :: "string \<Rightarrow> string \<Rightarrow> string option"
  aesDecrypt :: "string \<Rightarrow> string \<Rightarrow> string option"

record 'o json =
  stringify :: "'o \<Rightarrow> string option"
  parse :: "string \<Rightarrow> 'o option"

datatype encryption_error =
    FailedToEncryptData
  | FailedToDecryptData
  | FailedToEncryptObject
  | FailedToDecryptObject

definition encrypt :: "cipher \<Rightarrow> string \<Rightarrow> string \<Rightarrow> encryption_error + string" where
  "encrypt c secretKey plain =
     (case aesEncrypt c plain secretKey of
        None \<Rightarrow> Inl FailedToEncryptData
      | Some encrypted \<Rightarrow> Inr encrypted)"

text \<open>
  An empty decryption result is falsy, so \<open>decrypt\<close> throws \<open>Invalid encrypted data\<close> inside
  its own \<open>try\<close>, and the \<open>catch\<close> rethrows it as \<open>Failed to decrypt data\<close>.
\<close>

definition decrypt :: "cipher \<Rightarrow> string \<Rightarrow> string \<Rightarrow> encryption_error + string" where
  "decrypt c secretKey encryptedData =
     (case aesDecrypt c encryptedData secretKey of
        None \<Rightarrow> Inl FailedToDecryptData
      | Some decrypted \<Rightarrow>
          if decrypted = [] then Inl FailedToDecryptData else Inr decrypted)"

definition encryptObject :: "cipher \<Rightarrow> 'o json \<Rightarrow> string \<Rightarrow> 'o \<Rightarrow> encryption_error + string" where
  "encryptObject c j secretKey obj =
     (case stringify j obj of
        None \<Rightarrow> Inl FailedToEncryptObject
      | Some jsonString \<Rightarrow>
          (case encrypt c secretKey jsonString of
             Inl _ \<Rightarrow> Inl FailedToEncryptObject
           | Inr encrypted \<Rightarrow> Inr encrypted))"

definition decryptObject :: "cipher \<Rightarrow> 'o json \<Rightarrow> string \<Rightarrow> string \<Rightarrow> encryption_error + 'o" where
  "decryptObject c j secretKey encryptedData =
     (case decrypt c secretKey encryptedData of
        Inl _ \<Rightarrow> Inl FailedToDecryptObject
      | Inr decryptedString \<Rightarrow>
          (case parse j decryptedString of
             None \<Rightarrow> Inl FailedToDecryptObject
           | Some obj \<Rightarrow> Inr obj))"

text \<open>\<open>decrypt(encrypt(s))\<close> and \<open>decryptObject(encryptObject(o))\<close>; a throw of the inner call ends the expression.\<close>

definition roundTrip :: "cipher \<Rightarrow> string \<Rightarrow> string \<Rightarrow> encryption_error + string" where
  "roundTrip c secretKey plain =
     (case encrypt c secretKey plain of
        Inl e \<Rightarrow> Inl e
      | Inr encrypted \<Rightarrow> decrypt c secretKey encrypted)"

definition roundTripObject :: "cipher \<Rightarrow> 'o json \<Rightarrow> string \<Rightarrow> 'o \<Rightarrow> encryption_error + 'o" where
  "roundTripObject c j secretKey obj =
     (case encryptObject c j secretKey obj of
        Inl e \<Rightarrow> Inl e
      | Inr encrypted \<Rightarrow> decryptObject c j secretKey encrypted)"

text \<open>
  A stand-in cipher for concrete runs: the ciphertext is the key followed by the plain
  text, and decrypting under another key yields the empty string. It has the one property
  of the library the service relies on, that decrypting an encryption under the same key
  gives the plain text back.
\<close>

definition sealCipher :: cipher where
  "sealCipher =
     \<lparr>aesEncrypt = (\<lambda>plain key. Some (key @ plain)),
      aesDecrypt = (\<lambda>encrypted key.
         if take (length key) encrypted = key then Some (drop (length key) encrypted)
         else Some [])\<rparr>"

text \<open>\<open>process.env.REACT_APP_ENCRYPTION_KEY || 'default-secret-key'\<close>.\<close>

definition SECRET_KEY :: "string option \<Rightarrow> string" where
  "SECRET_KEY envKey =
     (case envKey of
        None \<Rightarrow> ''default-secret-key''
      | Some k \<Rightarrow> if k = [] then ''default-secret-key'' else k)"

section \<open>The App component\<close>

record app =
  app_isLoading :: bool
  appError :: "string option"

definition initialApp :: app where
  "initialApp = \<lparr>app_isLoading = True, appError = None\<rparr>"

definition handleLoadComplete :: "app \<Rightarrow> app" where
  "handleLoadComplete s = s\<lparr>app_isLoading := False\<rparr>"

definition handleError :: "string \<Rightarrow> app \<Rightarrow> app" where
  "handleError err s = s\<lparr>appError := Some err, app_isLoading := False\<rparr>"

definition handleTradingInterfaceLoad :: "app \<Rightarrow> app" where
  "handleTradingInterfaceLoad s = s"

text \<open>
  The callbacks the App hands to its children: the loading screen's \<open>onComplete\<close> and
  \<open>onError\<close>, the trading interface's \<open>onLoad\<close> and \<open>onError\<close>. An error carries its message.
\<close>

datatype app_event =
    LoadingComplete
  | LoadingFailed string
  | InterfaceLoaded
  | InterfaceFailed string

fun app_step :: "app \<Rightarrow> app_event \<Rightarrow> app" where
  "app_step s LoadingComplete = handleLoadComplete s"
| "app_step s (LoadingFailed err) = handleError err s"
| "app_step s InterfaceLoaded = handleTradingInterfaceLoad s"
| "app_step s (InterfaceFailed err) = handleError err s"

definition app_run :: "app \<Rightarrow> app_event list \<Rightarrow> app" where
  "app_run s evs = foldl app_step s evs"

text \<open>What the App renders: the nested conditional of its \<open>return\<close>.\<close>

datatype screen = LoadingScreen | ApplicationError string | TradingInterface

definition render :: "app \<Rightarrow> screen" where
  "render s =
     (if app_isLoading s then LoadingScreen
      else case appError s of
             Some msg \<Rightarrow> ApplicationError msg
           | None \<Rightarrow> TradingInterface)"

text \<open>
  \<open>generateIframeUrl\<close>: the base URL, a question mark and the serialised query parameters
  (session, timestamp, user agent, screen and time zone come from the browser).
\<close>

definition baseUrl :: string where
  "baseUrl = ''https://www.bundlerbot.fun''"

definition generateIframeUrl :: "string \<Rightarrow> string" where
  "generateIframeUrl params = baseUrl @ ''?'' @ params"

section \<open>The logger\<close>

datatype logLevel = DEBUG | INFO | WARN | ERROR

fun levelNum :: "logLevel \<Rightarrow> nat" where
  "levelNum DEBUG = 0"
| "levelNum INFO = 1"
| "levelNum WARN = 2"
| "levelNum ERROR = 3"

record 'd logEntry =
  timestamp :: date
  level :: logLevel
  message :: string
  data :: "'d option"
  source :: "string option"

text \<open>The private fields of the class; \<open>logger_level\<close> is its field \<open>level\<close>.\<close>

record 'd logger =
  logger_level :: logLevel
  logs :: "'d logEntry list"
  maxLogs :: nat

definition newLogger :: "logLevel \<Rightarrow> 'd logger" where
  "newLogger lvl = \<lparr>logger_level = lvl, logs = [], maxLogs = 1000\<rparr>"

definition shouldLog :: "'d logger \<Rightarrow> logLevel \<Rightarrow> bool" where
  "shouldLog lg lvl = (levelNum lvl \<ge> levelNum (logger_level lg))"

text \<open>\<open>now\<close> is the reading of the clock by \<open>new Date()\<close>.\<close>

definition addLog ::
  "'d logger \<Rightarrow> date \<Rightarrow> logLevel \<Rightarrow> string \<Rightarrow> 'd option \<Rightarrow> string option \<Rightarrow> 'd logger" where
  "addLog lg now lvl msg dat src =
     (let entry = \<lparr>timestamp = now, level = lvl, message = msg, data = dat, source = src\<rparr>;
          pushed = logs lg @ [entry]
      in if length pushed > maxLogs lg
         then lg\<lparr>logs := slice_from pushed (- int (maxLogs lg))\<rparr>
         else lg\<lparr>logs := pushed\<rparr>)"

text \<open>The four logging methods differ in their level only (the console output is not state).\<close>

definition logAt ::
  "logLevel \<Rightarrow> 'd logger \<Rightarrow> date \<Rightarrow> string \<Rightarrow> 'd option \<Rightarrow> string option \<Rightarrow> 'd logger" where
  "logAt lvl lg now msg dat src =
     (if \<not> shouldLog lg lvl then lg else addLog lg now lvl msg dat src)"

definition debug :: "'d logger \<Rightarrow> date \<Rightarrow> string \<Rightarrow> 'd option \<Rightarrow> string option \<Rightarrow> 'd logger" where
  "debug = logAt DEBUG"

definition info :: "'d logger \<Rightarrow> date \<Rightarrow> string \<Rightarrow> 'd option \<Rightarrow> string option \<Rightarrow> 'd logger" where
  "info = logAt INFO"

definition warn :: "'d logger \<Rightarrow> date \<Rightarrow> string \<Rightarrow> 'd option \<Rightarrow> string option \<Rightarrow> 'd logger" where
  "warn = logAt WARN"

definition error_log :: "'d logger \<Rightarrow> date \<Rightarrow> string \<Rightarrow> 'd option \<Rightarrow> string option \<Rightarrow> 'd logger" where
  "error_log = logAt ERROR"

definition clearLogs :: "'d logger \<Rightarrow> 'd logger" where
  "clearLogs lg = lg\<lparr>logs := []\<rparr>"

definition setLevel :: "'d logger \<Rightarrow> logLevel \<Rightarrow> 'd logger" where
  "setLevel lg lvl = lg\<lparr>logger_level := lvl\<rparr>"

text \<open>\<open>getLogs\<close> returns a fresh array and the logger as it leaves it.\<close>

definition getLogs :: "'d logger \<Rightarrow> logLevel option \<Rightarrow> 'd logEntry list \<times> 'd logger" where
  "getLogs lg lvl =
     (case lvl of
        Some l \<Rightarrow> (filter (\<lambda>log. levelNum (level log) \<ge> levelNum l) (logs lg), lg)
      | None \<Rightarrow> (logs lg, lg))"

datatype 'd logger_op =
    Debug date string "'d option" "string option"
  | Info date string "'d option" "string option"
  | Warn date string "'d option" "string option"
  | Error date string "'d option" "string option"
  | ClearLogs
  | SetLevel logLevel

fun logger_step :: "'d logger \<Rightarrow> 'd logger_op \<Rightarrow> 'd logger" where
  "logger_step lg (Debug now msg dat src) = debug lg now msg dat src"
| "logger_step lg (Info now msg dat src) = info lg now msg dat src"
| "logger_step lg (Warn now msg dat src) = warn lg now msg dat src"
| "logger_step lg (Error now msg dat src) = error_log lg now msg dat src"
| "logger_step lg ClearLogs = clearLogs lg"
| "logger_step lg (SetLevel lvl) = setLevel lg lvl"

definition logger_run :: "'d logger \<Rightarrow> 'd logger_op list \<Rightarrow> 'd logger" where
  "logger_run lg ops = foldl logger_step lg ops"

text \<open>
  The reference the buffer is compared with: the entries recorded since the last
  \<open>clearLogs\<close>, all of them, oldest first, together with the level in force. An entry is
  recorded when its level passes the level in force at the time of the call.
\<close>

definition opEntry :: "'d logger_op \<Rightarrow> 'd logEntry option" where
  "opEntry op =
     (case op of
        Debug now msg dat src \<Rightarrow>
          Some \<lparr>timestamp = now, level = DEBUG, message = msg, data = dat, source = src\<rparr>
      | Info now msg dat src \<Rightarrow>
          Some \<lparr>timestamp = now, level = INFO, message = msg, data = dat, source = src\<rparr>
      | Warn now msg dat src \<Rightarrow>
          Some \<lparr>timestamp = now, level = WARN, message = msg, data = dat, source = src\<rparr>
      | Error now msg dat src \<Rightarrow>
          Some \<lparr>timestamp = now, level = ERROR, message = msg, data = dat, source = src\<rparr>
      | ClearLogs \<Rightarrow> None
      | SetLevel lvl \<Rightarrow> None)"

definition record_step ::
  "logLevel \<times> 'd logEntry list \<Rightarrow> 'd logger_op \<Rightarrow> logLevel \<times> 'd logEntry list" where
  "record_step h op =
     (case op of
        ClearLogs \<Rightarrow> (fst h, [])
      | SetLevel lvl \<Rightarrow> (lvl, snd h)
      | _ \<Rightarrow>
          (case opEntry op of
             Some e \<Rightarrow>
               if levelNum (level e) \<ge> levelNum (fst h) then (fst h, snd h @ [e]) else h
           | None \<Rightarrow> h))"

definition recorded :: "logLevel \<Rightarrow> 'd logger_op list \<Rightarrow> 'd logEntry list" where
  "recorded lvl ops = snd (foldl record_step (lvl, []) ops)"

definition mostRecent :: "nat \<Rightarrow> 'a list \<Rightarrow> 'a list" where
  "mostRecent n xs = drop (length xs - n) xs"

section \<open>Validators and formatters that build strings\<close>

subsection \<open>Numbers as text\<close>










subsection \<open>\<open>validateField\<close>, \<open>validateForm\<close> and \<open>validators.email\<close>\<close>

text \<open>
  A field value is a string or \<open>undefined\<close> (\<open>None\<close>), as form data are. A rule's
  \<open>pattern\<close> is the \<open>test\<close> of a regular expression without the \<open>g\<close> and \<open>y\<close> flags, and
  its \<open>custom\<close> check returns a Boolean or a message.
\<close>

datatype custom_result = Verdict bool | Message string

record validationRule =
  required :: "bool option"
  minLength :: "nat option"
  maxLength :: "nat option"
  pattern :: "(string \<Rightarrow> bool) option"
  custom :: "(string \<Rightarrow> custom_result) option"






subsection \<open>\<open>formatTime\<close> and \<open>formatDuration\<close>\<close>






subsection \<open>The number formatters\<close>














subsection \<open>One invocation of an exported function\<close>






section \<open>Reference definitions the code is compared with\<close>

text \<open>
  The aggregates as the specification words them: one pass over the wallets that adds the
  balance of each selected wallet, the number of selected wallets, and the parsed amount
  that is 0 for the empty string.
\<close>

fun sumSelected :: "jsnum \<Rightarrow> wallet list \<Rightarrow> jsnum" where
  "sumSelected acc [] = acc"
| "sumSelected acc (w # ws) = sumSelected (if selected w then js_add acc (balance w) else acc) ws"

fun countSelected :: "wallet list \<Rightarrow> nat" where
  "countSelected [] = 0"
| "countSelected (w # ws) = (if selected w then Suc (countSelected ws) else countSelected ws)"

definition parseOrZero :: "string \<Rightarrow> jsnum" where
  "parseOrZero s = (if s = [] then Fin 0 else parseFloat s)"

text \<open>
  Retry with backoff as the specification words it. The binary64 product \<open>d * 2^k\<close> is
  exact below \<open>2^1024\<close> and an infinity from there on. \<open>attempts\<close> lists the results
  of the first \<open>k\<close> invocations when the \<open>j\<close>-th failure is followed by a wait of
  \<open>d * 2^j\<close>; \<open>worldLeft\<close> is the world the last of them leaves; \<open>backoffTrace\<close>
  lays the results out with the wait \<open>d * 2^j\<close> between result \<open>j\<close> and the next.
\<close>

definition withinBinary64 :: "jsnum \<Rightarrow> bool" where
  "withinBinary64 d = (case d of Fin r \<Rightarrow> \<bar>r\<bar> < overflow64 | _ \<Rightarrow> True)"

definition timesPow2 :: "jsnum \<Rightarrow> nat \<Rightarrow> jsnum" where
  "timesPow2 d k =
     (case d of
        Fin r \<Rightarrow> if \<bar>r\<bar> * 2 ^ k \<ge> overflow64 then js_inf (r < 0) else Fin (r * 2 ^ k)
      | _ \<Rightarrow> d)"

fun attempts ::
  "(jsnum \<Rightarrow> 's \<Rightarrow> 's) \<Rightarrow> ('s \<Rightarrow> ('e + 'a) \<times> 's) \<Rightarrow> jsnum \<Rightarrow> nat \<Rightarrow> 's \<Rightarrow> nat
     \<Rightarrow> ('e + 'a) list" where
  "attempts timer fn d j s 0 = []"
| "attempts timer fn d j s (Suc k) =
     fst (fn s) # attempts timer fn d (Suc j) (timer (timesPow2 d j) (snd (fn s))) k"

text \<open>The results up to and including the first success.\<close>

definition untilSuccess :: "('e + 'a) list \<Rightarrow> ('e + 'a) list" where
  "untilSuccess os = take (Suc (length (takeWhile isl os))) os"

fun worldLeft ::
  "(jsnum \<Rightarrow> 's \<Rightarrow> 's) \<Rightarrow> ('s \<Rightarrow> ('e + 'a) \<times> 's) \<Rightarrow> jsnum \<Rightarrow> nat \<Rightarrow> 's \<Rightarrow> nat \<Rightarrow> 's" where
  "worldLeft timer fn d j s 0 = s"
| "worldLeft timer fn d j s (Suc 0) = snd (fn s)"
| "worldLeft timer fn d j s (Suc (Suc k)) =
     worldLeft timer fn d (Suc j) (timer (timesPow2 d j) (snd (fn s))) (Suc k)"

fun backoffTrace :: "jsnum \<Rightarrow> nat \<Rightarrow> ('e + 'a) list \<Rightarrow> ('e, 'a) retry_event list" where
  "backoffTrace d j [] = []"
| "backoffTrace d j [r] = [Invoked r]"
| "backoffTrace d j (r # r' # rs) =
     Invoked r # Waited (timesPow2 d j) # backoffTrace d (Suc j) (r' # rs)"

text \<open>The events of the App that report an error.\<close>

fun isFailure :: "app_event \<Rightarrow> bool" where
  "isFailure (LoadingFailed err) = True"
| "isFailure (InterfaceFailed err) = True"
| "isFailure LoadingComplete = False"
| "isFailure InterfaceLoaded = False"

text \<open>
  Stand-ins for concrete runs: \<open>JSON.stringify\<close> and \<open>JSON.parse\<close> on the two Boolean
  values; a world that is a clock in milliseconds, with a timer that advances it, an
  operation that fails before time 3000 and one that always fails; built-ins that print
  nothing; and an environment with a given clock.
\<close>

definition boolJson :: "bool json" where
  "boolJson =
     \<lparr>stringify = (\<lambda>v. Some (if v then ''true'' else ''false'')),
      parse = (\<lambda>t. if t = ''true'' then Some True else if t = ''false'' then Some False else None)\<rparr>"

definition recovering :: "rat \<Rightarrow> (string + rat) \<times> rat" where
  "recovering t = (if t < 3000 then Inl ''unavailable'' else Inr t, t)"

definition unavailable :: "rat \<Rightarrow> (string + rat) \<times> rat" where
  "unavailable t = (Inl ''unavailable'', t)"

definition clockTimer :: "jsnum \<Rightarrow> rat \<Rightarrow> rat" where
  "clockTimer ms t = (case ms of Fin r \<Rightarrow> t + r | _ \<Rightarrow> t)"



text \<open>
  A form whose sell percentage field was cleared: a valid token address, a buy amount of
  0.1 and the default wallets.
\<close>

definition nanCreator :: creator where
  "nanCreator = initialCreator\<lparr>tokenAddress := ''7xKXtg2CW87d97TXJSDpbD5jBkheTqA83TZRuJosgAsU'',
      buyAmount := ''0.1'', sellPercentage := []\<rparr>"

text \<open>
  The relation between the logger and the unbounded record of what was logged, kept as one
  invariant for the induction over the operations.
\<close>

definition tracks :: "'d logger \<Rightarrow> logLevel \<times> 'd logEntry list \<Rightarrow> bool" where
  "tracks lg h = (logger_level lg = fst h \<and> maxLogs lg = 1000 \<and> logs lg = mostRecent 1000 (snd h))"

section \<open>Helper lemmas\<close>

lemma foldl_filter_sumSelected:
  "foldl (\<lambda>sum w. js_add sum (balance w)) acc (filter selected ws) = sumSelected acc ws"
  by (induction ws arbitrary: acc) simp_all

lemma length_filter_countSelected: "length (filter selected ws) = countSelected ws"
  by (induction ws) simp_all

lemmas parse_defs =
  parseFloat_def unsignedLiteral_def isWhiteSpace_def isDigit_def inRange_def
  digitsVal_def digitVal_def exponentPart_def scale10_def js_neg_def

lemma parseFloat_zero: "parseFloat ''0'' = Fin 0"
  by (simp add: parse_defs)

lemma parseFloat_empty: "parseFloat [] = NaN"
  by (simp add: parseFloat_def)

section \<open>Verified properties\<close>

text \<open>
  C1. For every list of wallets the displayed aggregates equal the reference summation:
  \<open>totalBalance\<close> is the sum of the balances of exactly the selected wallets, in wallet
  order; \<open>totalInvestment\<close> is the parsed buy amount (0 for the empty string) times the number
  of selected wallets, and \<open>totalFees\<close> is the parsed priority fee (0 for the empty string)
  times that number.
\<close>

theorem aggregates_equal_reference:
  "totalBalance (selectedWallets ws) = sumSelected (Fin 0) ws \<and>
   totalInvestment buy (selectedWallets ws) =
     js_mul (parseOrZero buy) (Fin (of_nat (countSelected ws))) \<and>
   totalFees fee (selectedWallets ws) =
     js_mul (parseOrZero fee) (Fin (of_nat (countSelected ws)))"
  by (simp add: totalBalance_def selectedWallets_def totalInvestment_def totalFees_def
      foldl_filter_sumSelected js_length_def length_filter_countSelected parseOrZero_def
      orZero_def parseFloat_zero)

theorem aggregates_equal_reference_witness:
  "totalBalance (selectedWallets initialWallets) = Fin (19 / 5) \<and>
   sumSelected (Fin 0) initialWallets = Fin (19 / 5) \<and>
   totalInvestment ''0.5'' (selectedWallets initialWallets) = Fin 1 \<and>
   totalFees [] (selectedWallets initialWallets) = Fin 0"
  using aggregates_equal_reference [of initialWallets "''0.5''" "[]"]
  by (simp add: initialWallets_def parseOrZero_def parse_defs Let_def)

subsection \<open>The two address checks\<close>

lemma isBase58_isAlnum: "isBase58 c \<Longrightarrow> isAlnum c"
  unfolding isBase58_def isAlnum_def inRange_def by auto

lemma solanaAddress_imp_validateTokenAddress:
  "solanaAddress a \<Longrightarrow> validateTokenAddress a"
  unfolding solanaAddress_def validateTokenAddress_def
  by (auto simp: list_all_iff isBase58_isAlnum)

text \<open>
  C2. The component's token address check and the validators' Solana address check are to
  accept the same strings. Every string the Base58 check accepts is accepted by the
  component (the lemma above), but not the other way round: the component accepts 32
  zeros, which neither Base58 check of the formatters and validators accepts.
\<close>

theorem validateTokenAddress_accepts_non_base58:
  "validateTokenAddress ''00000000000000000000000000000000'' \<and>
   \<not> solanaAddress ''00000000000000000000000000000000'' \<and>
   \<not> validateSolanaAddress ''00000000000000000000000000000000''"
  by (simp add: validateTokenAddress_def solanaAddress_def validateSolanaAddress_def
      isAlnum_def isBase58_def inRange_def)

subsection \<open>Validation errors of the Bundle Creator\<close>

lemmas creator_defs =
  validateInputs_def selectedWallets_def totalInvestment_def totalBalance_def orZero_def
  js_length_def js_gt_def js_le_def trim_def validateTokenAddress_def isAlnum_def
  initialCreator_def initialWallets_def

lemma isValid_iff: "isValid (validateInputs s) = (errors (validateInputs s) = [])"
  by (simp add: validateInputs_def Let_def)

text \<open>
  C3. When \<open>validateInputs\<close> returns a non-empty error list, \<open>handleCreateBundle\<close> ends in
  its first part: the error state is the errors joined with a comma and a space,
  \<open>isLoading\<close> is false, no callback of the parent is called, and every other component of
  the state (the modal flag, the form fields, the wallets with their transaction counts and
  \<open>lastUsed\<close> stamps, the bundle statistics) is as before. When the call started with
  \<open>isLoading\<close> false, as the guard \<open>disabled={isLoading || ...}\<close> of the Create button
  ensures, all state other than the error message is unchanged.
\<close>

theorem handleCreateBundle_validation_error:
  assumes "errors (validateInputs s) \<noteq> []"
  shows "handleCreateBundle_begin s =
           (s\<lparr>error := Some (join '', '' (errors (validateInputs s))), isLoading := False\<rparr>, None) \<and>
         handleCreateBundle p stamp s =
           (s\<lparr>error := Some (join '', '' (errors (validateInputs s))), isLoading := False\<rparr>, []) \<and>
         (\<not> isLoading s \<longrightarrow>
            handleCreateBundle p stamp s =
              (s\<lparr>error := Some (join '', '' (errors (validateInputs s)))\<rparr>, []))"
proof -
  have "\<not> isValid (validateInputs s)"
    using assms by (simp add: isValid_iff)
  then have b: "handleCreateBundle_begin s =
           (s\<lparr>error := Some (join '', '' (errors (validateInputs s))), isLoading := False\<rparr>, None)"
    by (simp add: handleCreateBundle_begin_def Let_def)
  then have w: "handleCreateBundle p stamp s =
           (s\<lparr>error := Some (join '', '' (errors (validateInputs s))), isLoading := False\<rparr>, [])"
    by (simp add: handleCreateBundle_def)
  have same: "s\<lparr>error := e, isLoading := False\<rparr> = s\<lparr>error := e\<rparr>" if "\<not> isLoading s" for e
    using that by (cases s) simp
  show ?thesis
    using b w same by simp
qed

lemma initial_errors:
  "errors (validateInputs initialCreator) =
     [''Token address is required'', ''Buy amount must be greater than 0'']"
  by (simp add: creator_defs parse_defs Let_def)

lemma loading_errors:
  "errors (validateInputs (initialCreator\<lparr>isLoading := True\<rparr>)) =
     [''Token address is required'', ''Buy amount must be greater than 0'']"
  by (simp add: creator_defs parse_defs Let_def)

theorem handleCreateBundle_validation_error_witness:
  "errors (validateInputs initialCreator) =
     [''Token address is required'', ''Buy amount must be greater than 0''] \<and>
   handleCreateBundle \<lparr>onCreateBundle = Some (\<lambda>c. None), onError = True\<rparr> (\<lambda>i. 0) initialCreator =
     (initialCreator\<lparr>error := Some ''Token address is required, Buy amount must be greater than 0''\<rparr>, [])"
proof -
  have ne: "errors (validateInputs initialCreator) \<noteq> []"
    by (simp add: initial_errors)
  have same: "initialCreator\<lparr>error := e, isLoading := False\<rparr> = initialCreator\<lparr>error := e\<rparr>" for e
    by (simp add: initialCreator_def)
  show ?thesis
    using handleCreateBundle_validation_error [OF ne]
    by (simp add: initial_errors same)
qed

text \<open>
  Without that guard the statement fails: in a state with \<open>isLoading\<close> true the \<open>finally\<close>
  block changes that flag, so more than the error message differs afterwards.
\<close>

theorem handleCreateBundle_resets_isLoading:
  "errors (validateInputs (initialCreator\<lparr>isLoading := True\<rparr>)) \<noteq> [] \<and>
   fst (handleCreateBundle \<lparr>onCreateBundle = None, onError = False\<rparr> (\<lambda>i. 0)
          (initialCreator\<lparr>isLoading := True\<rparr>)) \<noteq>
     (initialCreator\<lparr>isLoading := True\<rparr>)
       \<lparr>error := Some (join '', '' (errors (validateInputs (initialCreator\<lparr>isLoading := True\<rparr>))))\<rparr> \<and>
   isLoading (initialCreator\<lparr>isLoading := True\<rparr>) \<and>
   \<not> isLoading (fst (handleCreateBundle \<lparr>onCreateBundle = None, onError = False\<rparr> (\<lambda>i. 0)
          (initialCreator\<lparr>isLoading := True\<rparr>)))"
proof -
  have v: "\<not> isValid (validateInputs (initialCreator\<lparr>isLoading := True\<rparr>))"
    by (simp add: isValid_iff loading_errors)
  have r: "fst (handleCreateBundle \<lparr>onCreateBundle = None, onError = False\<rparr> (\<lambda>i. 0)
          (initialCreator\<lparr>isLoading := True\<rparr>)) =
        initialCreator\<lparr>isLoading := False,
          error := Some (join '', '' (errors (validateInputs (initialCreator\<lparr>isLoading := True\<rparr>))))\<rparr>"
    using v by (simp add: handleCreateBundle_def handleCreateBundle_begin_def Let_def)
  have ne: "initialCreator\<lparr>isLoading := False, error := e\<rparr> \<noteq> initialCreator\<lparr>isLoading := True, error := e\<rparr>" for e
  proof
    assume "initialCreator\<lparr>isLoading := False, error := e\<rparr> = initialCreator\<lparr>isLoading := True, error := e\<rparr>"
    then have "isLoading (initialCreator\<lparr>isLoading := False, error := e\<rparr>) =
               isLoading (initialCreator\<lparr>isLoading := True, error := e\<rparr>)" by (rule arg_cong)
    then show False by simp
  qed
  show ?thesis
    unfolding r using ne by (simp add: loading_errors)
qed

subsection \<open>Retry with backoff\<close>

lemma bitLength_0: "bitLength 0 = 0"
  by (simp add: bitLength.simps [of 0])

lemma bitLength_le: "m < 2 ^ k \<Longrightarrow> bitLength m \<le> k"
proof (induction k arbitrary: m)
  case 0
  then show ?case by (simp add: bitLength_0)
next
  case (Suc k)
  show ?case
  proof (cases "m = 0")
    case True
    then show ?thesis by (simp add: bitLength_0)
  next
    case False
    have "m div 2 < 2 ^ k" using Suc.prems by simp
    then have "bitLength (m div 2) \<le> k" by (rule Suc.IH)
    then show ?thesis using False by (simp add: bitLength.simps [of m])
  qed
qed

lemma round64_exact: "m < 2 ^ 53 \<Longrightarrow> round64 m = m"
  using bitLength_le [of m 53] by (simp add: round64_def Let_def)

lemma decrement_exact:
  assumes "0 < n" and "n \<le> 2 ^ 53"
  shows "decrement n = n - 1"
proof -
  have "nat (n - 1) < 2 ^ 53"
    using assms by (simp add: nat_less_iff)
  then have "round64 (nat (n - 1)) = nat (n - 1)"
    by (rule round64_exact)
  then show ?thesis
    using assms by (simp add: decrement_def)
qed

lemma timesPow2_0: "withinBinary64 d \<Longrightarrow> timesPow2 d 0 = d"
  by (cases d) (simp_all add: timesPow2_def withinBinary64_def)

lemma twice_timesPow2: "twice (timesPow2 d j) = timesPow2 d (Suc j)"
proof (cases d)
  case (Fin r)
  have le: "\<bar>r\<bar> * 2 ^ j \<le> \<bar>r\<bar> * (2 * 2 ^ j)"
    by (simp add: mult_left_mono)
  have pos: "overflow64 > 0"
    by (simp add: overflow64_def)
  show ?thesis
  proof (cases "\<bar>r\<bar> * 2 ^ j \<ge> overflow64")
    case True
    then have "\<bar>r\<bar> * (2 * 2 ^ j) \<ge> overflow64" using le by linarith
    then show ?thesis
      using True Fin by (simp add: timesPow2_def twice_def js_inf_def)
  next
    case False
    have a: "\<bar>r * 2 ^ j\<bar> * 2 = \<bar>r\<bar> * (2 * 2 ^ j)"
      by (simp add: abs_mult)
    have s: "(r * 2 ^ j < 0) = (r < 0)"
      by (simp add: mult_less_0_iff)
    have m: "r * 2 ^ j * 2 = r * (2 * 2 ^ j)"
      by simp
    show ?thesis
      using False Fin unfolding timesPow2_def twice_def by (simp add: a s m)
  qed
qed (simp_all add: timesPow2_def twice_def)

lemma length_attempts: "length (attempts timer fn d j s k) = k"
  by (induction k arbitrary: j s) simp_all

lemma retry_success:
  "fn s = (Inr v, s') \<Longrightarrow>
   retry timer fn n d s = Some \<lparr>outcome = Inr v, world = s', trace = [Invoked (Inr v)]\<rparr>"
  by (subst retry.simps) simp

lemma retry_give_up:
  "fn s = (Inl err, s') \<Longrightarrow> \<not> n > 0 \<Longrightarrow>
   retry timer fn n d s = Some \<lparr>outcome = Inl err, world = s', trace = [Invoked (Inl err)]\<rparr>"
  by (subst retry.simps) simp

lemma retry_again:
  "fn s = (Inl err, s') \<Longrightarrow> n > 0 \<Longrightarrow>
   retry timer fn n d s =
     Option.bind (retry timer fn (decrement n) (twice d) (timer d s'))
       (\<lambda>r. Some (r\<lparr>trace := Invoked (Inl err) # Waited d # trace r\<rparr>))"
  by (subst retry.simps) (simp add: apiUtils_delay_def)

lemma untilSuccess_Nil: "untilSuccess [] = []"
  by (simp add: untilSuccess_def)

lemma untilSuccess_Cons:
  "untilSuccess (x # xs) = (if isl x then x # untilSuccess xs else [x])"
  by (simp add: untilSuccess_def)

lemma untilSuccess_nonempty: "os \<noteq> [] \<Longrightarrow> untilSuccess os \<noteq> []"
  by (cases os) (simp_all add: untilSuccess_Cons)

lemma attempts_nonempty: "attempts timer fn d j s (Suc k) \<noteq> []"
  by simp

lemma backoffTrace_Cons:
  "rs \<noteq> [] \<Longrightarrow> backoffTrace d j (r # rs) = Invoked r # Waited (timesPow2 d j) # backoffTrace d (Suc j) rs"
  by (cases rs) simp_all

lemma worldLeft_Suc:
  "0 < k \<Longrightarrow> worldLeft timer fn d j s (Suc k) =
     worldLeft timer fn d (Suc j) (timer (timesPow2 d j) (snd (fn s))) k"
  by (cases k) simp_all

lemma retry_settles:
  "m \<le> 2 ^ 53 \<Longrightarrow>
   retry timer fn (int m) (timesPow2 d j) s =
     Some \<lparr>outcome = last (untilSuccess (attempts timer fn d j s (Suc m))),
           world = worldLeft timer fn d j s (length (untilSuccess (attempts timer fn d j s (Suc m)))),
           trace = backoffTrace d j (untilSuccess (attempts timer fn d j s (Suc m)))\<rparr>"
proof (induction m arbitrary: j s)
  case 0
  obtain res s' where fs: "fn s = (res, s')" by (cases "fn s")
  show ?case
  proof (cases res)
    case (Inl err)
    then have fs': "fn s = (Inl err, s')" using fs by simp
    have "retry timer fn (int 0) (timesPow2 d j) s =
        Some \<lparr>outcome = Inl err, world = s', trace = [Invoked (Inl err)]\<rparr>"
      by (rule retry_give_up [of fn s err s', OF fs']) simp
    then show ?thesis
      using fs' by (simp add: untilSuccess_Cons untilSuccess_Nil)
  next
    case (Inr v)
    then have fs': "fn s = (Inr v, s')" using fs by simp
    show ?thesis
      unfolding retry_success [of fn s v s', OF fs']
      using fs' by (simp add: untilSuccess_Cons)
  qed
next
  case (Suc m)
  obtain res s' where fs: "fn s = (res, s')" by (cases "fn s")
  show ?case
  proof (cases res)
    case (Inr v)
    then have fs': "fn s = (Inr v, s')" using fs by simp
    show ?thesis
      unfolding retry_success [of fn s v s', OF fs']
      using fs' by (simp add: untilSuccess_Cons)
  next
    case (Inl err)
    then have fs': "fn s = (Inl err, s')" using fs by simp
    define s'' where "s'' = timer (timesPow2 d j) s'"
    define made where "made = untilSuccess (attempts timer fn d (Suc j) s'' (Suc m))"
    have m: "m \<le> 2 ^ 53" using Suc.prems by simp
    have pos: "int (Suc m) > 0" by simp
    have bound: "int (Suc m) \<le> 2 ^ 53"
      using Suc.prems by (metis of_nat_le_iff of_nat_numeral of_nat_power)
    have dec: "decrement (int (Suc m)) = int m"
      using decrement_exact [OF pos bound] by simp
    have IH: "retry timer fn (int m) (timesPow2 d (Suc j)) s'' =
        Some \<lparr>outcome = last made, world = worldLeft timer fn d (Suc j) s'' (length made),
              trace = backoffTrace d (Suc j) made\<rparr>"
      unfolding made_def by (rule Suc.IH [OF m])
    have ne: "made \<noteq> []"
      unfolding made_def by (rule untilSuccess_nonempty) simp
    have len: "0 < length made" using ne by simp
    have all: "untilSuccess (attempts timer fn d j s (Suc (Suc m))) = Inl err # made"
      unfolding made_def s''_def using fs' by (simp add: untilSuccess_Cons)
    have step: "retry timer fn (int (Suc m)) (timesPow2 d j) s =
        Some \<lparr>outcome = last made, world = worldLeft timer fn d (Suc j) s'' (length made),
              trace = Invoked (Inl err) # Waited (timesPow2 d j) # backoffTrace d (Suc j) made\<rparr>"
      unfolding retry_again [of fn s err s' "int (Suc m)" timer, OF fs' pos] dec twice_timesPow2
      using IH unfolding s''_def by simp
    have w: "worldLeft timer fn d j s (Suc (length made)) =
        worldLeft timer fn d (Suc j) s'' (length made)"
      unfolding s''_def using worldLeft_Suc [OF len, of timer fn d j s] fs' by simp
    show ?thesis
      unfolding all step using ne w by (simp add: backoffTrace_Cons)
  qed
qed

lemma invocationCount_backoffTrace: "invocationCount (backoffTrace d j rs) = length rs"
  by (induction d j rs rule: backoffTrace.induct) (simp_all add: invocationCount_def)

lemma backoffTrace_nth_invoked:
  "k < length rs \<Longrightarrow> backoffTrace d j rs ! (2 * k) = Invoked (rs ! k)"
proof (induction d j rs arbitrary: k rule: backoffTrace.induct)
  case (1 d j)
  then show ?case by simp
next
  case (2 d j r)
  then show ?case by simp
next
  case (3 d j r r' rs)
  show ?case
  proof (cases k)
    case 0
    then show ?thesis by simp
  next
    case (Suc k')
    then have "k' < length (r' # rs)" using "3.prems" by simp
    then have "backoffTrace d (Suc j) (r' # rs) ! (2 * k') = Invoked ((r' # rs) ! k')"
      by (rule "3.IH")
    then show ?thesis using Suc by simp
  qed
qed

lemma backoffTrace_nth_waited:
  "Suc k < length rs \<Longrightarrow> backoffTrace d j rs ! (2 * k + 1) = Waited (timesPow2 d (j + k))"
proof (induction d j rs arbitrary: k rule: backoffTrace.induct)
  case (1 d j)
  then show ?case by simp
next
  case (2 d j r)
  then show ?case by simp
next
  case (3 d j r r' rs)
  show ?case
  proof (cases k)
    case 0
    then show ?thesis by simp
  next
    case (Suc k')
    then have "Suc k' < length (r' # rs)" using "3.prems" by simp
    then have "backoffTrace d (Suc j) (r' # rs) ! (2 * k' + 1) = Waited (timesPow2 d (Suc j + k'))"
      by (rule "3.IH")
    then show ?thesis using Suc by simp
  qed
qed

lemma length_untilSuccess: "length (untilSuccess os) \<le> length os"
  by (simp add: untilSuccess_def)

lemma untilSuccess_nth: "k < length (untilSuccess os) \<Longrightarrow> untilSuccess os ! k = os ! k"
  by (simp add: untilSuccess_def)

lemma untilSuccess_butlast: "list_all isl (butlast (untilSuccess os))"
proof (induction os)
  case Nil
  then show ?case by (simp add: untilSuccess_Nil)
next
  case (Cons x xs)
  show ?case
  proof (cases "xs = []")
    case True
    then show ?thesis by (simp add: untilSuccess_Cons untilSuccess_Nil)
  next
    case False
    then have "untilSuccess xs \<noteq> []" by (rule untilSuccess_nonempty)
    then show ?thesis using Cons by (simp add: untilSuccess_Cons)
  qed
qed

lemma untilSuccess_last:
  "os \<noteq> [] \<Longrightarrow>
   last (untilSuccess os) = (if list_all isl os then last os else hd (dropWhile isl os))"
proof (induction os)
  case Nil
  then show ?case by simp
next
  case (Cons x xs)
  show ?case
  proof (cases "xs = []")
    case True
    then show ?thesis by (simp add: untilSuccess_Cons untilSuccess_Nil)
  next
    case False
    then have ne: "untilSuccess xs \<noteq> []" by (rule untilSuccess_nonempty)
    have "last (untilSuccess xs) = (if list_all isl xs then last xs else hd (dropWhile isl xs))"
      using False by (rule Cons.IH)
    then show ?thesis using ne False by (simp add: untilSuccess_Cons)
  qed
qed

text \<open>
  C4. For every retry count \<open>n\<close> from 0 to \<open>2^53\<close> and every binary64 delay \<open>d\<close>, the
  promise of \<open>retry\<close> settles. With \<open>os\<close> the results of \<open>n + 1\<close> invocations separated by
  the waits, the invocations made are those up to and including the first success: at
  least one and at most \<open>n + 1\<close>. The trace alternates them with the waits, so the wait
  awaited after the \<open>k\<close>-th invocation failed and before the next one starts is the binary64
  product \<open>d * 2^(k-1)\<close>; every invocation but the last failed; and the promise settles to the
  result of the last invocation made, which is the first success if there is one and the
  error of invocation \<open>n + 1\<close> otherwise.
\<close>

theorem retry_backoff:
  assumes "0 \<le> n" and "n \<le> 9007199254740992" and "withinBinary64 d"
  shows "let os = attempts timer fn d 0 s (nat n + 1); made = untilSuccess os in
           retry timer fn n d s =
             Some \<lparr>outcome = last made, world = worldLeft timer fn d 0 s (length made),
                   trace = backoffTrace d 0 made\<rparr> \<and>
           1 \<le> length made \<and> int (length made) \<le> n + 1 \<and>
           invocationCount (backoffTrace d 0 made) = length made \<and>
           (\<forall>k. 1 \<le> k \<and> k < length made \<longrightarrow>
              backoffTrace d 0 made ! (2 * k - 1) = Waited (timesPow2 d (k - 1)) \<and>
              backoffTrace d 0 made ! (2 * k) = Invoked (os ! k)) \<and>
           list_all isl (butlast made) \<and>
           last made = (if list_all isl os then last os else hd (dropWhile isl os))"
proof -
  define os where "os = attempts timer fn d 0 s (nat n + 1)"
  define made where "made = untilSuccess os"
  have n: "int (nat n) = n" using assms(1) by simp
  have m: "nat n \<le> 2 ^ 53"
    using assms(1,2) by (simp add: nat_le_iff)
  have os_ne: "os \<noteq> []" unfolding os_def by simp
  have len_os: "length os = nat n + 1" unfolding os_def by (rule length_attempts)
  have run: "retry timer fn n d s =
      Some \<lparr>outcome = last made, world = worldLeft timer fn d 0 s (length made),
            trace = backoffTrace d 0 made\<rparr>"
    using retry_settles [OF m, of timer fn d 0 s] timesPow2_0 [OF assms(3)]
    unfolding made_def os_def n by simp
  have ne: "made \<noteq> []" unfolding made_def using os_ne by (rule untilSuccess_nonempty)
  have c1: "1 \<le> length made" using ne by (cases made) simp_all
  have "length made \<le> nat n + 1"
    unfolding made_def using length_untilSuccess [of os] len_os by simp
  then have c2: "int (length made) \<le> n + 1" using assms(1) by linarith
  have c3: "invocationCount (backoffTrace d 0 made) = length made"
    by (rule invocationCount_backoffTrace)
  have c4: "backoffTrace d 0 made ! (2 * k - 1) = Waited (timesPow2 d (k - 1)) \<and>
            backoffTrace d 0 made ! (2 * k) = Invoked (os ! k)"
    if k: "1 \<le> k \<and> k < length made" for k
  proof -
    obtain k' where k': "k = Suc k'" using k by (cases k) simp_all
    have "Suc k' < length made" using k k' by simp
    then have w: "backoffTrace d 0 made ! (2 * k' + 1) = Waited (timesPow2 d (0 + k'))"
      by (rule backoffTrace_nth_waited)
    have i: "backoffTrace d 0 made ! (2 * k) = Invoked (made ! k)"
      using k by (simp add: backoffTrace_nth_invoked)
    have "made ! k = os ! k"
      unfolding made_def using k unfolding made_def by (simp add: untilSuccess_nth)
    then show ?thesis using w i k' by simp
  qed
  have c5: "list_all isl (butlast made)"
    unfolding made_def by (rule untilSuccess_butlast)
  have c6: "last made = (if list_all isl os then last os else hd (dropWhile isl os))"
    unfolding made_def using os_ne by (rule untilSuccess_last)
  show ?thesis
    unfolding Let_def os_def [symmetric] made_def [symmetric]
    using run c1 c2 c3 c4 c5 c6 by blast
qed

theorem retry_backoff_witness:
  "retry clockTimer recovering 3 (Fin 1000) 0 =
     Some \<lparr>outcome = Inr 3000, world = 3000,
           trace = [Invoked (Inl ''unavailable''), Waited (Fin 1000),
                    Invoked (Inl ''unavailable''), Waited (Fin 2000),
                    Invoked (Inr 3000)]\<rparr>"
proof -
  have h1: "(0::int) \<le> 3" by simp
  have h2: "(3::int) \<le> 9007199254740992" by simp
  have h3: "withinBinary64 (Fin 1000)"
    by (simp add: withinBinary64_def overflow64_def)
  have t0: "timesPow2 (Fin 1000) 0 = Fin 1000"
    by (simp add: timesPow2_def overflow64_def)
  have t1: "timesPow2 (Fin 1000) (Suc 0) = Fin 2000"
    by (simp add: timesPow2_def overflow64_def)
  have t2: "timesPow2 (Fin 1000) (Suc (Suc 0)) = Fin 4000"
    by (simp add: timesPow2_def overflow64_def)
  have os: "attempts clockTimer recovering (Fin 1000) 0 0 (nat 3 + 1) =
      [Inl ''unavailable'', Inl ''unavailable'', Inr 3000, Inr 7000]"
    by (simp add: eval_nat_numeral t0 t1 t2 recovering_def clockTimer_def)
  have made: "untilSuccess [Inl ''unavailable'', Inl ''unavailable'', Inr 3000, Inr (7000::rat)] =
      [Inl ''unavailable'', Inl ''unavailable'', Inr 3000]"
    by (simp add: untilSuccess_def)
  have w: "worldLeft clockTimer recovering (Fin 1000) 0 0 (Suc (Suc (Suc 0))) = 3000"
    by (simp add: t0 t1 recovering_def clockTimer_def)
  have tr: "backoffTrace (Fin 1000) 0 [Inl ''unavailable'', Inl ''unavailable'', Inr (3000::rat)] =
      [Invoked (Inl ''unavailable''), Waited (Fin 1000),
       Invoked (Inl ''unavailable''), Waited (Fin 2000), Invoked (Inr 3000)]"
    by (simp add: t0 t1)
  have "retry clockTimer recovering 3 (Fin 1000) 0 =
      Some \<lparr>outcome = last [Inl ''unavailable'', Inl ''unavailable'', Inr 3000],
            world = worldLeft clockTimer recovering (Fin 1000) 0 0
                      (length [Inl ''unavailable'', Inl ''unavailable'', Inr (3000::rat)]),
            trace = backoffTrace (Fin 1000) 0 [Inl ''unavailable'', Inl ''unavailable'', Inr 3000]\<rparr>"
    using retry_backoff [OF h1 h2 h3, of clockTimer recovering 0]
    unfolding Let_def os made by blast
  then show ?thesis
    unfolding tr using w by simp
qed

lemma retry_loops:
  assumes run: "retry timer fn n d s = Some y"
  shows "\<not> (fn = unavailable \<and> 0 < n \<and> decrement n = n)"
proof (rule retry.raw_induct
    [where P = "\<lambda>timer fn n d s y. \<not> (fn = unavailable \<and> 0 < n \<and> decrement n = n)", OF _ run])
  fix retry' :: "(jsnum \<Rightarrow> rat \<Rightarrow> rat) \<Rightarrow> (rat \<Rightarrow> (string + rat) \<times> rat) \<Rightarrow> int \<Rightarrow> jsnum \<Rightarrow> rat
      \<Rightarrow> (string, rat, rat) retry_run option"
  fix timer fn retries delay s y
  assume IH: "\<And>timer fn retries delay s y. retry' timer fn retries delay s = Some y \<Longrightarrow>
      \<not> (fn = unavailable \<and> 0 < retries \<and> decrement retries = retries)"
  assume body: "(case fn s of
        (Inl err, s') \<Rightarrow>
          if 0 < retries
          then Option.bind
                 (retry' timer fn (decrement retries) (twice delay) (apiUtils_delay timer delay s'))
                 (\<lambda>r. Some (r\<lparr>trace := Invoked (Inl err) # Waited delay # trace r\<rparr>))
          else Some \<lparr>outcome = Inl err, world = s', trace = [Invoked (Inl err)]\<rparr>
      | (Inr v, s') \<Rightarrow> Some \<lparr>outcome = Inr v, world = s', trace = [Invoked (Inr v)]\<rparr>) = Some y"
  show "\<not> (fn = unavailable \<and> 0 < retries \<and> decrement retries = retries)"
  proof
    assume a: "fn = unavailable \<and> 0 < retries \<and> decrement retries = retries"
    then have fs: "fn s = (Inl ''unavailable'', s)"
      by (simp add: unavailable_def)
    have "Option.bind
            (retry' timer fn retries (twice delay) (apiUtils_delay timer delay s))
            (\<lambda>r. Some (r\<lparr>trace := Invoked (Inl ''unavailable'') # Waited delay # trace r\<rparr>)) = Some y"
      using body a fs by simp
    then obtain r where
      r: "retry' timer fn retries (twice delay) (apiUtils_delay timer delay s) = Some r"
      by (cases "retry' timer fn retries (twice delay) (apiUtils_delay timer delay s)") simp_all
    from IH [OF r] a show False by simp
  qed
qed

text \<open>
  The bound on the count is needed. \<open>9007199254740996\<close> is a binary64 value whose
  predecessor rounds back to it, so \<open>retries - 1\<close> leaves the count as it is: with an
  operation that always fails the helper goes on invoking it and its promise never settles.
\<close>

theorem retry_never_settles:
  "round64 9007199254740996 = 9007199254740996 \<and>
   decrement 9007199254740996 = 9007199254740996 \<and>
   retry clockTimer unavailable 9007199254740996 (Fin 1000) 0 = None"
proof -
  have r: "round64 9007199254740996 = 9007199254740996"
    by (simp add: round64_def bitLength.simps Let_def)
  have d: "decrement 9007199254740996 = 9007199254740996"
    by (simp add: decrement_def round64_def bitLength.simps Let_def)
  have ne: "retry clockTimer unavailable 9007199254740996 (Fin 1000) 0 \<noteq> Some y" for y
    using retry_loops [of clockTimer unavailable 9007199254740996 "Fin 1000" 0 y] d by auto
  have "retry clockTimer unavailable 9007199254740996 (Fin 1000) 0 = None"
  proof (cases "retry clockTimer unavailable 9007199254740996 (Fin 1000) 0")
    case None
    then show ?thesis .
  next
    case (Some y)
    then show ?thesis using ne [of y] by simp
  qed
  then show ?thesis using r d by simp
qed

subsection \<open>The encryption round trip\<close>

text \<open>
  C5. For every non-empty string that the cipher library encrypts and decrypts back under
  the same key, \<open>decrypt(encrypt(s))\<close> returns the string. The empty string does not come
  back: \<open>decrypt\<close> rejects an empty decryption result, whatever the library. For every
  object whose JSON text \<open>JSON.parse\<close> maps back to it (a JSON text is never empty) and that
  the library encrypts and decrypts back, \<open>decryptObject(encryptObject(o))\<close> returns the object.
\<close>

theorem roundTrip_nonempty:
  "(aesEncrypt c s k = Some e \<and> aesDecrypt c e k = Some s \<and> s \<noteq> [] \<longrightarrow>
      roundTrip c k s = Inr s) \<and>
   roundTrip c k [] \<noteq> Inr [] \<and>
   (stringify j obj = Some js \<and> parse j js = Some obj \<and> js \<noteq> [] \<and>
    aesEncrypt c js k = Some e' \<and> aesDecrypt c e' k = Some js \<longrightarrow>
      roundTripObject c j k obj = Inr obj)"
proof -
  have a: "roundTrip c k s = Inr s"
    if "aesEncrypt c s k = Some e" "aesDecrypt c e k = Some s" "s \<noteq> []"
    using that by (simp add: roundTrip_def encrypt_def decrypt_def)
  have b: "roundTrip c k [] \<noteq> Inr []"
    by (simp add: roundTrip_def encrypt_def decrypt_def split: option.split)
  have d: "roundTripObject c j k obj = Inr obj"
    if "stringify j obj = Some js" "parse j js = Some obj" "js \<noteq> []"
       "aesEncrypt c js k = Some e'" "aesDecrypt c e' k = Some js"
    using that
    by (simp add: roundTripObject_def encryptObject_def decryptObject_def encrypt_def decrypt_def)
  show ?thesis using a b d by blast
qed

theorem roundTrip_nonempty_witness:
  "roundTrip sealCipher (SECRET_KEY None) ''wallet'' = Inr ''wallet'' \<and>
   roundTripObject sealCipher boolJson (SECRET_KEY None) True = Inr True"
proof -
  have e: "aesEncrypt sealCipher ''wallet'' (SECRET_KEY None) = Some (SECRET_KEY None @ ''wallet'')"
    by (simp add: sealCipher_def)
  have d: "aesDecrypt sealCipher (SECRET_KEY None @ ''wallet'') (SECRET_KEY None) = Some ''wallet''"
    by (simp add: sealCipher_def)
  have ne: "''wallet'' \<noteq> []" by simp
  have j: "stringify boolJson True = Some ''true'' \<and> parse boolJson ''true'' = Some True \<and> ''true'' \<noteq> []"
    by (simp add: boolJson_def)
  have e2: "aesEncrypt sealCipher ''true'' (SECRET_KEY None) = Some (SECRET_KEY None @ ''true'')"
    by (simp add: sealCipher_def)
  have d2: "aesDecrypt sealCipher (SECRET_KEY None @ ''true'') (SECRET_KEY None) = Some ''true''"
    by (simp add: sealCipher_def)
  show ?thesis
    using roundTrip_nonempty [of sealCipher "''wallet''" "SECRET_KEY None" "SECRET_KEY None @ ''wallet''"
        boolJson True "''true''" "SECRET_KEY None @ ''true''"] e d ne j e2 d2
    by blast
qed

text \<open>
  The round trip does not return every string. With a cipher that does return the empty
  string from its encryption, the service throws \<open>Failed to decrypt data\<close>.
\<close>

theorem roundTrip_empty_string_fails:
  "aesEncrypt sealCipher [] (SECRET_KEY None) = Some (SECRET_KEY None) \<and>
   aesDecrypt sealCipher (SECRET_KEY None) (SECRET_KEY None) = Some [] \<and>
   roundTrip sealCipher (SECRET_KEY None) [] = Inl FailedToDecryptData"
  by (simp add: roundTrip_def encrypt_def decrypt_def sealCipher_def)

subsection \<open>The screens of the App\<close>

lemma app_isLoading_run:
  "app_isLoading (foldl app_step s evs) = (app_isLoading s \<and> list_all (\<lambda>e. e = InterfaceLoaded) evs)"
proof (induction evs arbitrary: s)
  case Nil
  then show ?case by simp
next
  case (Cons ev evs)
  then show ?case
    by (cases ev) (auto simp: handleLoadComplete_def handleError_def handleTradingInterfaceLoad_def)
qed

lemma appError_run:
  "(appError (foldl app_step s evs) = None) = (appError s = None \<and> \<not> list_ex isFailure evs)"
proof (induction evs arbitrary: s)
  case Nil
  then show ?case by simp
next
  case (Cons ev evs)
  then show ?case
    by (cases ev) (auto simp: handleLoadComplete_def handleError_def handleTradingInterfaceLoad_def)
qed

lemma render_trading: "(render s = TradingInterface) = (\<not> app_isLoading s \<and> appError s = None)"
  by (simp add: render_def split: option.split)

lemma render_loading: "(render s = LoadingScreen) = app_isLoading s"
  by (simp add: render_def split: option.split)

lemma not_all_loaded:
  "\<not> list_ex isFailure evs \<Longrightarrow>
   (\<not> list_all (\<lambda>e. e = InterfaceLoaded) evs) = (LoadingComplete \<in> set evs)"
proof (induction evs)
  case Nil
  then show ?case by simp
next
  case (Cons ev evs)
  then show ?case by (cases ev) auto
qed

text \<open>
  C6. The App starts on the loading screen. After any sequence of callbacks it renders the
  trading interface, whose iframe loads a URL that begins with the base URL, exactly when
  the loading screen's \<open>onComplete\<close> has been called and no error has been reported. A
  step into the trading interface from another screen is an \<open>onComplete\<close> taken on the
  loading screen, which sets \<open>isLoading\<close> to false; and once the loading screen is left no
  sequence of callbacks brings it back.
\<close>

theorem iframe_only_after_loading:
  "render initialApp = LoadingScreen \<and>
   (render (app_run initialApp evs) = TradingInterface) =
     (LoadingComplete \<in> set evs \<and> \<not> list_ex isFailure evs) \<and>
   (render s \<noteq> TradingInterface \<and> render (app_step s ev) = TradingInterface \<longrightarrow>
      ev = LoadingComplete \<and> render s = LoadingScreen \<and> \<not> app_isLoading (app_step s ev)) \<and>
   (render s \<noteq> LoadingScreen \<longrightarrow> render (app_run s evs) \<noteq> LoadingScreen) \<and>
   take (length baseUrl) (generateIframeUrl params) = ''https://www.bundlerbot.fun''"
proof -
  have a: "render initialApp = LoadingScreen"
    by (simp add: render_def initialApp_def)
  have b: "(render (app_run initialApp evs) = TradingInterface) =
     (LoadingComplete \<in> set evs \<and> \<not> list_ex isFailure evs)"
    using not_all_loaded [of evs]
    by (auto simp: render_trading app_run_def app_isLoading_run appError_run initialApp_def)
  have c: "ev = LoadingComplete \<and> render s = LoadingScreen \<and> \<not> app_isLoading (app_step s ev)"
    if "render s \<noteq> TradingInterface" "render (app_step s ev) = TradingInterface"
    using that
    by (cases ev) (auto simp: render_trading render_loading handleLoadComplete_def
        handleError_def handleTradingInterfaceLoad_def)
  have d: "render (app_run s evs) \<noteq> LoadingScreen" if "render s \<noteq> LoadingScreen"
    using that by (simp add: render_loading app_run_def app_isLoading_run)
  have e: "take (length baseUrl) (generateIframeUrl params) = ''https://www.bundlerbot.fun''"
    by (simp add: generateIframeUrl_def baseUrl_def)
  show ?thesis using a b c d e by blast
qed

theorem iframe_only_after_loading_witness:
  "render initialApp = LoadingScreen \<and>
   render (app_run initialApp [LoadingComplete, InterfaceLoaded]) = TradingInterface \<and>
   render (app_run initialApp [LoadingFailed ''Loading failed'', LoadingComplete]) =
     ApplicationError ''Loading failed'' \<and>
   render (app_run (app_run initialApp [LoadingComplete]) [InterfaceLoaded, LoadingComplete]) \<noteq> LoadingScreen"
proof -
  have t: "render (app_run initialApp [LoadingComplete, InterfaceLoaded]) = TradingInterface"
    using iframe_only_after_loading [of "[LoadingComplete, InterfaceLoaded]"] by simp
  have l: "render (app_run initialApp [LoadingComplete]) \<noteq> LoadingScreen"
    by (simp add: render_def app_run_def initialApp_def handleLoadComplete_def)
  have n: "render (app_run (app_run initialApp [LoadingComplete]) [InterfaceLoaded, LoadingComplete]) \<noteq> LoadingScreen"
    using iframe_only_after_loading
      [where s = "app_run initialApp [LoadingComplete]" and evs = "[InterfaceLoaded, LoadingComplete]"] l
    by blast
  have f: "render (app_run initialApp [LoadingFailed ''Loading failed'', LoadingComplete]) =
     ApplicationError ''Loading failed''"
    by (simp add: render_def app_run_def initialApp_def handleLoadComplete_def handleError_def)
  show ?thesis
    using t n f iframe_only_after_loading [of "[]"] by blast
qed

subsection \<open>Address truncation\<close>

lemma formatAddress_positive_endChars:
  "0 \<le> startChars \<Longrightarrow> 0 < endChars \<Longrightarrow>
   formatAddress a startChars endChars =
     (if a = [] \<or> int (length a) \<le> startChars + endChars then a
      else take (nat startChars) a @ ''...'' @ drop (length a - nat endChars) a)"
  by (auto simp: formatAddress_def slice_def slice_from_def Let_def min_def max_def nat_diff_distrib)

text \<open>
  C7. For every end count of at least one, \<open>formatAddress\<close> returns a short address
  unchanged and otherwise its first characters, three dots and its last characters (the
  lemma above). For an end count of zero the last zero characters are no characters, but
  \<open>slice(-0)\<close> is \<open>slice(0)\<close>, and the code appends the whole address to the dots.
\<close>

theorem formatAddress_endChars_zero:
  "formatAddress ''abcdefghij'' 4 0 = ''abcd...abcdefghij'' \<and>
   \<not> (''abcdefghij'' = [] \<or> int (length ''abcdefghij'') \<le> 4 + 0) \<and>
   take 4 ''abcdefghij'' @ ''...'' @ drop (length ''abcdefghij'' - 0) ''abcdefghij'' = ''abcd...''"
  by (simp add: formatAddress_def slice_def slice_from_def)

subsection \<open>Determinism of the utilities\<close>





subsection \<open>The log buffer\<close>

lemma slice_from_negative:
  "0 < n \<Longrightarrow> slice_from xs (- int n) = mostRecent n xs"
  by (simp add: slice_from_def slice_def mostRecent_def Let_def max_def nat_diff_distrib)

lemma mostRecent_short: "length xs \<le> n \<Longrightarrow> mostRecent n xs = xs"
  by (simp add: mostRecent_def)

lemma length_mostRecent: "length (mostRecent n xs) \<le> n"
  by (simp add: mostRecent_def)

lemma mostRecent_snoc:
  "0 < n \<Longrightarrow> mostRecent n (mostRecent n xs @ [x]) = mostRecent n (xs @ [x])"
proof -
  assume n: "0 < n"
  have a: "Suc (length xs) - (length xs - n + n) + (length xs - n) = Suc (length xs) - n"
    using n by arith
  show ?thesis
    by (simp add: mostRecent_def a)
qed

lemma logs_addLog:
  "0 < maxLogs lg \<Longrightarrow>
   logs (addLog lg now lvl msg dat src) =
     mostRecent (maxLogs lg)
       (logs lg @ [\<lparr>timestamp = now, level = lvl, message = msg, data = dat, source = src\<rparr>])"
  by (simp add: addLog_def Let_def slice_from_negative mostRecent_short)

lemma addLog_fields:
  "logger_level (addLog lg now lvl msg dat src) = logger_level lg \<and>
   maxLogs (addLog lg now lvl msg dat src) = maxLogs lg"
  by (simp add: addLog_def Let_def)

lemma tracks_logAt:
  assumes "tracks lg h"
  shows "tracks (logAt lvl lg now msg dat src)
           (if levelNum lvl \<ge> levelNum (fst h)
            then (fst h, snd h @ [\<lparr>timestamp = now, level = lvl, message = msg, data = dat, source = src\<rparr>])
            else h)"
proof -
  have l: "logger_level lg = fst h" and m: "maxLogs lg = 1000" and b: "logs lg = mostRecent 1000 (snd h)"
    using assms unfolding tracks_def by blast+
  have pos: "0 < maxLogs lg" using m by simp
  show ?thesis
  proof (cases "levelNum lvl \<ge> levelNum (fst h)")
    case True
    have "logs (addLog lg now lvl msg dat src) =
        mostRecent 1000 (snd h @ [\<lparr>timestamp = now, level = lvl, message = msg, data = dat, source = src\<rparr>])"
      unfolding logs_addLog [OF pos] m b by (rule mostRecent_snoc) simp
    then show ?thesis
      using True l m addLog_fields [of lg now lvl msg dat src]
      by (simp add: tracks_def logAt_def shouldLog_def)
  next
    case False
    then show ?thesis
      using assms l by (simp add: logAt_def shouldLog_def)
  qed
qed

lemma tracks_step:
  assumes "tracks lg h"
  shows "tracks (logger_step lg op) (record_step h op)"
proof (cases op)
  case (Debug now msg dat src)
  then show ?thesis
    using tracks_logAt [OF assms, of DEBUG now msg dat src]
    by (simp add: debug_def record_step_def opEntry_def)
next
  case (Info now msg dat src)
  then show ?thesis
    using tracks_logAt [OF assms, of INFO now msg dat src]
    by (simp add: info_def record_step_def opEntry_def)
next
  case (Warn now msg dat src)
  then show ?thesis
    using tracks_logAt [OF assms, of WARN now msg dat src]
    by (simp add: warn_def record_step_def opEntry_def)
next
  case (Error now msg dat src)
  then show ?thesis
    using tracks_logAt [OF assms, of ERROR now msg dat src]
    by (simp add: error_log_def record_step_def opEntry_def)
next
  case ClearLogs
  then show ?thesis
    using assms by (simp add: tracks_def clearLogs_def record_step_def mostRecent_def)
next
  case (SetLevel lvl)
  then show ?thesis
    using assms by (simp add: tracks_def setLevel_def record_step_def)
qed

lemma tracks_run:
  "tracks lg h \<Longrightarrow> tracks (foldl logger_step lg ops) (foldl record_step h ops)"
proof (induction ops arbitrary: lg h)
  case Nil
  then show ?case by simp
next
  case (Cons op ops)
  have "tracks (logger_step lg op) (record_step h op)"
    using Cons.prems by (rule tracks_step)
  then show ?case
    using Cons.IH by simp
qed

text \<open>
  C9. After any sequence of \<open>debug\<close>, \<open>info\<close>, \<open>warn\<close>, \<open>error\<close>, \<open>clearLogs\<close> and
  \<open>setLevel\<close> calls on a new logger, the buffer holds at most 1000 entries, and they are the
  most recent entries recorded since the last \<open>clearLogs\<close>, oldest first. \<open>getLogs\<close> with a
  level returns the buffered entries of at least that level, in order, and without one a copy
  of the buffer; it leaves the logger as it was.
\<close>

theorem logger_buffer_bounded:
  "maxLogs (logger_run (newLogger lvl) ops) = 1000 \<and>
   length (logs (logger_run (newLogger lvl) ops)) \<le> 1000 \<and>
   logs (logger_run (newLogger lvl) ops) = mostRecent 1000 (recorded lvl ops) \<and>
   getLogs (logger_run (newLogger lvl) ops) (Some l) =
     (filter (\<lambda>log. levelNum (level log) \<ge> levelNum l) (logs (logger_run (newLogger lvl) ops)),
      logger_run (newLogger lvl) ops) \<and>
   getLogs (logger_run (newLogger lvl) ops) None =
     (logs (logger_run (newLogger lvl) ops), logger_run (newLogger lvl) ops)"
proof -
  have "tracks (newLogger lvl :: 'a logger) (lvl, [])"
    by (simp add: tracks_def newLogger_def mostRecent_def)
  then have t: "tracks (logger_run (newLogger lvl :: 'a logger) ops) (foldl record_step (lvl, []) ops)"
    unfolding logger_run_def by (rule tracks_run)
  have m: "maxLogs (logger_run (newLogger lvl :: 'a logger) ops) = 1000"
    and b: "logs (logger_run (newLogger lvl :: 'a logger) ops) = mostRecent 1000 (recorded lvl ops)"
    using t unfolding tracks_def recorded_def by blast+
  have len: "length (logs (logger_run (newLogger lvl :: 'a logger) ops)) \<le> 1000"
    unfolding b by (rule length_mostRecent)
  show ?thesis
    using m b len by (simp add: getLogs_def)
qed

theorem logger_buffer_bounded_witness:
  "logs (logger_run (newLogger INFO :: unit logger)
      [Debug 1 ''a'' None None, Info 2 ''b'' None None, SetLevel DEBUG,
       Debug 3 ''c'' None None, ClearLogs, Error 4 ''d'' None (Some ''api'')]) =
     [\<lparr>timestamp = 4, level = ERROR, message = ''d'', data = None, source = Some ''api''\<rparr>] \<and>
   recorded INFO
      [Debug 1 ''a'' None None, Info 2 ''b'' None None, SetLevel DEBUG,
       Debug 3 ''c'' None None, ClearLogs, Error 4 ''d'' (None :: unit option) (Some ''api'')] =
     [\<lparr>timestamp = 4, level = ERROR, message = ''d'', data = None, source = Some ''api''\<rparr>]"
proof -
  have r: "recorded INFO
      [Debug 1 ''a'' None None, Info 2 ''b'' None None, SetLevel DEBUG,
       Debug 3 ''c'' None None, ClearLogs, Error 4 ''d'' (None :: unit option) (Some ''api'')] =
     [\<lparr>timestamp = 4, level = ERROR, message = ''d'', data = None, source = Some ''api''\<rparr>]"
    by (simp add: recorded_def record_step_def opEntry_def)
  show ?thesis
    using logger_buffer_bounded [of INFO
      "[Debug 1 ''a'' None None, Info 2 ''b'' None None, SetLevel DEBUG,
        Debug 3 ''c'' None None, ClearLogs, Error 4 ''d'' (None :: unit option) (Some ''api'')]"]
    unfolding r by (simp add: mostRecent_def)
qed

subsection \<open>A sell percentage that is not a number\<close>

text \<open>
  C10. When \<open>parseFloat\<close> of the sell percentage field is \<open>NaN\<close>, \<open>validateInputs\<close> reports no
  sell percentage error. If the other checks pass (token address, buy amount, wallet
  selection, balance), validation passes, the first part of \<open>handleCreateBundle\<close> hands on a
  configuration whose \<open>sellPercentage\<close> is \<open>NaN\<close>, and the second part gives it to
  \<open>onCreateBundle\<close>, when the parent has supplied one, whatever has become of the state
  during the wait.
\<close>

theorem sellPercentage_NaN_passes:
  assumes nan: "parseFloat (sellPercentage s) = NaN"
  shows "''Sell percentage must be between 0 and 100'' \<notin> set (errors (validateInputs s)) \<and>
    (trim (tokenAddress s) \<noteq> [] \<and> validateTokenAddress (tokenAddress s) \<and>
     buyAmount s \<noteq> [] \<and> \<not> js_le (parseFloat (buyAmount s)) (Fin 0) \<and>
     selectedWallets (wallets s) \<noteq> [] \<and>
     \<not> js_gt (totalInvestment (buyAmount s) (selectedWallets (wallets s)))
              (totalBalance (selectedWallets (wallets s)))
     \<longrightarrow> isValid (validateInputs s) \<and> cfg_sellPercentage (makeConfig s) = NaN \<and>
         handleCreateBundle_begin s =
           (s\<lparr>isLoading := True, error := None\<rparr>,
            Some \<lparr>config = makeConfig s,
                  investment = totalInvestment (buyAmount s) (selectedWallets (wallets s))\<rparr>) \<and>
         (onCreateBundle p = Some cb \<longrightarrow>
            hd (snd (handleCreateBundle_resume p stamp
                  \<lparr>config = makeConfig s,
                   investment = totalInvestment (buyAmount s) (selectedWallets (wallets s))\<rparr> cur)) =
              CreateBundle (makeConfig s) \<and>
            snd (handleCreateBundle_resume p stamp
                  \<lparr>config = makeConfig s,
                   investment = totalInvestment (buyAmount s) (selectedWallets (wallets s))\<rparr> cur) \<noteq> [] \<and>
            hd (snd (handleCreateBundle p stamp s)) = CreateBundle (makeConfig s) \<and>
            snd (handleCreateBundle p stamp s) \<noteq> []))"
proof -
  have noerr: "''Sell percentage must be between 0 and 100'' \<notin> set (errors (validateInputs s))"
    using nan by (simp add: validateInputs_def Let_def js_gt_def)
  have valid: "isValid (validateInputs s)"
    if "trim (tokenAddress s) \<noteq> []" "validateTokenAddress (tokenAddress s)"
       "buyAmount s \<noteq> []" "\<not> js_le (parseFloat (buyAmount s)) (Fin 0)"
       "selectedWallets (wallets s) \<noteq> []"
       "\<not> js_gt (totalInvestment (buyAmount s) (selectedWallets (wallets s)))
              (totalBalance (selectedWallets (wallets s)))"
    using that nan by (simp add: validateInputs_def Let_def js_gt_def)
  have cfg: "cfg_sellPercentage (makeConfig s) = NaN"
    using nan by (simp add: makeConfig_def)
  define k where "k = \<lparr>config = makeConfig s,
      investment = totalInvestment (buyAmount s) (selectedWallets (wallets s))\<rparr>"
  have ck: "config k = makeConfig s" by (simp add: k_def)
  have start: "handleCreateBundle_begin s = (s\<lparr>isLoading := True, error := None\<rparr>, Some k)"
    if "isValid (validateInputs s)"
    using that by (simp add: handleCreateBundle_begin_def Let_def k_def)
  have res: "hd (snd (handleCreateBundle_resume p stamp k c)) = CreateBundle (makeConfig s) \<and>
             snd (handleCreateBundle_resume p stamp k c) \<noteq> []"
    if "onCreateBundle p = Some cb" for c
    using that by (simp add: handleCreateBundle_resume_def Let_def ck split: option.split)
  have whole: "hd (snd (handleCreateBundle p stamp s)) = CreateBundle (makeConfig s) \<and>
             snd (handleCreateBundle p stamp s) \<noteq> []"
    if "isValid (validateInputs s)" "onCreateBundle p = Some cb"
    using start [OF that(1)] res [OF that(2)] by (simp add: handleCreateBundle_def)
  show ?thesis
    unfolding k_def [symmetric]
    using noerr valid cfg start res whole by blast
qed

theorem sellPercentage_NaN_passes_witness:
  "parseFloat (sellPercentage nanCreator) = NaN \<and>
   isValid (validateInputs nanCreator) \<and>
   cfg_sellPercentage (makeConfig nanCreator) = NaN \<and>
   hd (snd (handleCreateBundle \<lparr>onCreateBundle = Some (\<lambda>c. None), onError = True\<rparr> (\<lambda>i. 0) nanCreator)) =
     CreateBundle (makeConfig nanCreator)"
proof -
  have nan: "parseFloat (sellPercentage nanCreator) = NaN"
    by (simp add: nanCreator_def parseFloat_def)
  have t: "trim (tokenAddress nanCreator) \<noteq> [] \<and> validateTokenAddress (tokenAddress nanCreator)"
    by (simp add: nanCreator_def trim_def isWhiteSpace_def validateTokenAddress_def isAlnum_def inRange_def)
  have b: "buyAmount nanCreator \<noteq> [] \<and> \<not> js_le (parseFloat (buyAmount nanCreator)) (Fin 0)"
    by (simp add: nanCreator_def js_le_def parse_defs Let_def)
  have w: "selectedWallets (wallets nanCreator) \<noteq> []"
    by (simp add: nanCreator_def creator_defs)
  have i: "\<not> js_gt (totalInvestment (buyAmount nanCreator) (selectedWallets (wallets nanCreator)))
              (totalBalance (selectedWallets (wallets nanCreator)))"
    by (simp add: nanCreator_def creator_defs parse_defs Let_def)
  show ?thesis
    using sellPercentage_NaN_passes [OF nan, of "\<lparr>onCreateBundle = Some (\<lambda>c. None), onError = True\<rparr>"
        "\<lambda>c. None" "\<lambda>i. 0" nanCreator]
      nan t b w i by auto
qed

end
